theory Spec2Isabelle
  imports Main "HOL-Library.Sublist"
begin

unbundle bit_operations_syntax

section \<open>Runtime entries of the code generator: a shallow embedding\<close>

text \<open>
  The development follows \<^verbatim>\<open>runtime/vm/code_generator.cc\<close>. Heap objects are
  referred to by address; the null object is address \<open>0\<close>. Mutation through a handle
  becomes an update of the heap that is passed in and returned. \<^verbatim>\<open>ASSERT\<close> expands
  to nothing outside \<^verbatim>\<open>DEBUG\<close> builds; the embedding follows the release build, so an
  assertion is not a branch of the model. \<^verbatim>\<open>FATAL\<close>, \<^verbatim>\<open>UNIMPLEMENTED\<close> and
  every throw end the entry with an error value. Tracing output (\<^verbatim>\<open>OS::PrintErr\<close>) has
  no effect on the state and is left out.
\<close>

type_synonym addr = nat

abbreviation null :: addr where
  "null \<equiv> 0"

datatype vm_error =
    TypeError int string string string "string option"
      \<comment> \<open>location, source type name, destination type name, destination name, bound error message\<close>
  | StackOverflowError
  | PropagatedError addr
  | Fatal string
  | Unimplemented
  | UndefinedBehaviour string
      \<comment> \<open>a \<^verbatim>\<open>NULL\<close> pointer is dereferenced, or an array is read out of range\<close>

subsection \<open>Functions, code objects and frames\<close>

record Function =
  qualified_name :: string          \<comment> \<open>\<^verbatim>\<open>ToFullyQualifiedCString()\<close>\<close>
  owner_cid :: int                  \<comment> \<open>\<^verbatim>\<open>Class::Handle(Owner()).id()\<close>\<close>
  usage_counter :: int
  deoptimization_counter :: int
  is_optimizable :: bool
  current_code :: addr              \<comment> \<open>\<^verbatim>\<open>CurrentCode()\<close>\<close>
  unoptimized_code :: addr

record Code =
  is_optimized :: bool
  is_alive :: bool
  code_function :: addr             \<comment> \<open>\<^verbatim>\<open>function()\<close>\<close>
  entry_point :: nat                \<comment> \<open>\<^verbatim>\<open>Instructions::Handle(instructions()).EntryPoint()\<close>\<close>
  lazy_deopt_pc :: nat              \<comment> \<open>\<^verbatim>\<open>GetLazyDeoptPc()\<close>\<close>
  deopt_info_at_pc :: "nat \<Rightarrow> addr"  \<comment> \<open>\<^verbatim>\<open>GetDeoptInfoAtPc(pc, &reason)\<close>\<close>
  deopt_id_for_osr :: "nat \<Rightarrow> int"   \<comment> \<open>\<^verbatim>\<open>GetDeoptIdForOsr(pc)\<close>\<close>

record heap =
  function_at :: "addr \<Rightarrow> Function"
  code_at :: "addr \<Rightarrow> Code"
  call_at :: "nat \<Rightarrow> nat option"    \<comment> \<open>calls inserted by \<^verbatim>\<open>CodePatcher::InsertCallAt\<close>\<close>

record StackFrame =
  pc :: nat
  sp :: nat
  dart_code :: addr                 \<comment> \<open>\<^verbatim>\<open>LookupDartCode()\<close>\<close>

record Debugger =
  IsStepping :: bool
  HasBreakpoint :: "addr \<Rightarrow> bool"

record flags =
  FLAG_deoptimization_counter_threshold :: int
  FLAG_max_subtype_cache_entries :: int
  FLAG_optimization_filter :: "string option"   \<comment> \<open>\<open>None\<close> is \<^verbatim>\<open>NULL\<close>\<close>
  FLAG_stop_on_excessive_deoptimization :: bool
  FLAG_use_osr :: bool

definition set_usage_counter :: "addr \<Rightarrow> int \<Rightarrow> heap \<Rightarrow> heap" where
  "set_usage_counter f v h =
     h\<lparr>function_at := (function_at h)(f := (function_at h f)\<lparr>usage_counter := v\<rparr>)\<rparr>"

subsection \<open>The optimizability predicate\<close>

definition kLowInvocationCount :: int where
  "kLowInvocationCount = - 100000000"

text \<open>\<^verbatim>\<open>strstr(haystack, needle) != NULL\<close>: the needle occurs as a contiguous run.\<close>

fun strstr :: "string \<Rightarrow> string \<Rightarrow> bool" where
  "strstr [] needle = (needle = [])"
| "strstr (c # cs) needle = (prefix needle (c # cs) \<or> strstr cs needle)"

text \<open>
  The tokens that successive \<^verbatim>\<open>strtok_r(filter, ",", &save_ptr)\<close> calls return: the
  maximal comma-free runs of the filter, none of them empty. The first argument is the
  token being read.
\<close>

fun strtok_r :: "string \<Rightarrow> string \<Rightarrow> string list" where
  "strtok_r tok [] = (if tok = [] then [] else [tok])"
| "strtok_r tok (c # cs) =
     (if c = CHR '','' then (if tok = [] then strtok_r [] cs else tok # strtok_r [] cs)
      else strtok_r (tok @ [c]) cs)"

text \<open>The \<^verbatim>\<open>while (token != NULL)\<close> loop, leaving at the first token that matches.\<close>

fun filter_found :: "string \<Rightarrow> string list \<Rightarrow> bool" where
  "filter_found function_name [] = False"
| "filter_found function_name (token # rest) =
     (if strstr function_name token then True else filter_found function_name rest)"

definition CanOptimizeFunction ::
  "flags \<Rightarrow> Debugger \<Rightarrow> addr \<Rightarrow> heap \<Rightarrow> vm_error + (bool \<times> heap)" where
  "CanOptimizeFunction fl dbg f h =
     (if IsStepping dbg \<or> HasBreakpoint dbg f then
        Inr (False, set_usage_counter f 0 h)
      else if FLAG_deoptimization_counter_threshold fl \<le> deoptimization_counter (function_at h f) then
        (if FLAG_stop_on_excessive_deoptimization fl then
           Inl (Fatal ''Stop on excessive deoptimization'')
         else Inr (False, set_usage_counter f kLowInvocationCount h))
      else if (case FLAG_optimization_filter fl of
                 None \<Rightarrow> False
               | Some filter_str \<Rightarrow>
                   \<not> filter_found (qualified_name (function_at h f)) (strtok_r [] filter_str)) then
        Inr (False, set_usage_counter f kLowInvocationCount h)
      else if \<not> is_optimizable (function_at h f) then
        Inr (False, set_usage_counter f kLowInvocationCount h)
      else Inr (True, h))"

subsection \<open>Scheduling lazy deoptimization\<close>

text \<open>
  Modelled from the spec: \<^verbatim>\<open>Function::HasOptimizedCode\<close> is declared outside this file;
  the function "still owns optimized code" when it has current code and that code is
  optimized.
\<close>

definition HasOptimizedCode :: "addr \<Rightarrow> heap \<Rightarrow> bool" where
  "HasOptimizedCode f h =
     (current_code (function_at h f) \<noteq> null
      \<and> is_optimized (code_at h (current_code (function_at h f))))"

text \<open>
  Modelled from the spec: \<^verbatim>\<open>Function::SwitchToUnoptimizedCode\<close> is declared outside
  this file; it swaps the current code of the function to its unoptimized code.
\<close>

definition SwitchToUnoptimizedCode :: "addr \<Rightarrow> heap \<Rightarrow> heap" where
  "SwitchToUnoptimizedCode f h =
     h\<lparr>function_at := (function_at h)
          (f := (function_at h f)\<lparr>current_code := unoptimized_code (function_at h f)\<rparr>)\<rparr>"

text \<open>
  Modelled from the spec: \<^verbatim>\<open>CodePatcher::InsertCallAt(pc, target)\<close> belongs to the code
  patcher; it patches the call at \<open>pc\<close> to the given target.
\<close>

definition InsertCallAt :: "nat \<Rightarrow> nat \<Rightarrow> heap \<Rightarrow> heap" where
  "InsertCallAt at_pc target h = h\<lparr>call_at := (call_at h)(at_pc \<mapsto> target)\<rparr>"

definition set_is_alive :: "addr \<Rightarrow> bool \<Rightarrow> heap \<Rightarrow> heap" where
  "set_is_alive c v h = h\<lparr>code_at := (code_at h)(c := (code_at h c)\<lparr>is_alive := v\<rparr>)\<rparr>"

definition DeoptimizeAt :: "addr \<Rightarrow> nat \<Rightarrow> heap \<Rightarrow> heap" where
  "DeoptimizeAt optimized_code at_pc h =
     (let f = code_function (code_at h optimized_code);
          h1 = (if HasOptimizedCode f h then SwitchToUnoptimizedCode f h else h);
          lazy_deopt_jump = lazy_deopt_pc (code_at h1 optimized_code);
          h2 = InsertCallAt at_pc lazy_deopt_jump h1
      in set_is_alive optimized_code False h2)"

text \<open>
  \<^verbatim>\<open>DartFrameIterator\<close>: the Dart frames of the stack, topmost first. The iterator is
  the list of frames it has not yet returned; \<^verbatim>\<open>NextFrame()\<close> returns the next
  frame, or \<open>None\<close> for \<^verbatim>\<open>NULL\<close>, and the advanced iterator.
\<close>

definition NextFrame :: "StackFrame list \<Rightarrow> StackFrame option \<times> StackFrame list" where
  "NextFrame iterator = (case iterator of [] \<Rightarrow> (None, []) | fr # rest \<Rightarrow> (Some fr, rest))"

text \<open>The \<^verbatim>\<open>while (frame != NULL)\<close> loop of \<^verbatim>\<open>DeoptimizeAll\<close>.\<close>

function DeoptimizeAll_loop :: "StackFrame option \<Rightarrow> StackFrame list \<Rightarrow> heap \<Rightarrow> heap" where
  "DeoptimizeAll_loop None iterator h = h"
| "DeoptimizeAll_loop (Some frame) iterator h =
     (let optimized_code = dart_code frame;
          h' = (if is_optimized (code_at h optimized_code)
                then DeoptimizeAt optimized_code (pc frame) h else h)
      in DeoptimizeAll_loop (fst (NextFrame iterator)) (snd (NextFrame iterator)) h')"
  by pat_completeness auto
termination
  by (relation "measure (\<lambda>(frame, iterator, h).
         length iterator + (case frame of None \<Rightarrow> 0 | Some _ \<Rightarrow> 1))")
     (auto simp: NextFrame_def split: list.splits)

definition DeoptimizeAll :: "StackFrame list \<Rightarrow> heap \<Rightarrow> heap" where
  "DeoptimizeAll stack h = DeoptimizeAll_loop (fst (NextFrame stack)) (snd (NextFrame stack)) h"

fun ContainsCid :: "int list \<Rightarrow> int \<Rightarrow> bool" where
  "ContainsCid [] cid = False"
| "ContainsCid (c # cids) cid = (if c = cid then True else ContainsCid cids cid)"

text \<open>
  The \<^verbatim>\<open>while (frame != NULL)\<close> loop of \<^verbatim>\<open>DeoptimizeIfOwner\<close>. Its body never
  assigns \<^verbatim>\<open>frame\<close>: the iterator is not advanced, so the iterator is no argument of
  the loop. The loop may run forever; \<open>None\<close> is "does not return".
\<close>

partial_function (option) DeoptimizeIfOwner_loop ::
  "int list \<Rightarrow> StackFrame option \<Rightarrow> heap \<Rightarrow> heap option" where
  "DeoptimizeIfOwner_loop classes frame h =
     (case frame of
        None \<Rightarrow> Some h
      | Some fr \<Rightarrow>
          (let optimized_code = dart_code fr;
               h' = (if is_optimized (code_at h optimized_code) then
                       (let owner = owner_cid (function_at h (code_function (code_at h optimized_code)))
                        in if ContainsCid classes owner
                           then DeoptimizeAt optimized_code (pc fr) h else h)
                     else h)
           in DeoptimizeIfOwner_loop classes frame h'))"

definition DeoptimizeIfOwner :: "int list \<Rightarrow> StackFrame list \<Rightarrow> heap \<Rightarrow> heap option" where
  "DeoptimizeIfOwner classes stack h = DeoptimizeIfOwner_loop classes (fst (NextFrame stack)) h"

subsection \<open>On-stack replacement from the stack-overflow entry\<close>

record Isolate =
  debugger :: Debugger
  saved_stack_limit :: nat
  interrupts :: nat                       \<comment> \<open>the pending interrupt bits\<close>
  InterruptCallback :: "bool option"      \<comment> \<open>\<open>None\<close> is no callback, \<open>Some b\<close> one that returns \<open>b\<close>\<close>
  VmStatsCallback :: "bool option"

text \<open>The interrupt masks are constants of \<^verbatim>\<open>class Isolate\<close>, declared outside this file.\<close>

record interrupt_masks =
  kApiInterrupt :: nat
  kMessageInterrupt :: nat
  kStoreBufferInterrupt :: nat
  kVmStatusInterrupt :: nat

text \<open>
  The collaborators of the entry: the compiler returns an error object (null for none)
  and works on the heap; the garbage collector and the message handler work on the heap.
\<close>

record collaborators =
  CompileOptimizedFunction :: "addr \<Rightarrow> int \<Rightarrow> heap \<Rightarrow> addr \<times> heap"
  CollectGarbage :: "heap \<Rightarrow> heap"
  HandleOOBMessages :: "heap \<Rightarrow> heap"

text \<open>
  Modelled from the spec: \<^verbatim>\<open>Function::SetCode\<close> is declared outside this file; it makes
  the given code the current code of the function.
\<close>

definition SetCode :: "addr \<Rightarrow> addr \<Rightarrow> heap \<Rightarrow> heap" where
  "SetCode f c h = h\<lparr>function_at := (function_at h)(f := (function_at h f)\<lparr>current_code := c\<rparr>)\<rparr>"

text \<open>\<^verbatim>\<open>frame->set_pc(v)\<close> for the frame that the first \<^verbatim>\<open>NextFrame()\<close> returned.\<close>

definition set_pc :: "nat \<Rightarrow> StackFrame list \<Rightarrow> StackFrame list" where
  "set_pc v stack = (case stack of [] \<Rightarrow> [] | fr # rest \<Rightarrow> fr\<lparr>pc := v\<rparr> # rest)"

text \<open>The block guarded by \<^verbatim>\<open>FLAG_use_osr && (interrupt_bits == 0)\<close>.\<close>

definition StackOverflow_osr ::
  "flags \<Rightarrow> collaborators \<Rightarrow> Isolate \<Rightarrow> StackFrame list \<Rightarrow> heap
     \<Rightarrow> vm_error + (StackFrame list \<times> heap)" where
  "StackOverflow_osr fl co isolate stack h =
     (case fst (NextFrame stack) of
        None \<Rightarrow> Inl (UndefinedBehaviour ''frame is NULL'')
      | Some frame \<Rightarrow>
          (let f = code_function (code_at h (dart_code frame)) in
           case CanOptimizeFunction fl (debugger isolate) f h of
             Inl e \<Rightarrow> Inl e
           | Inr (can_optimize, h1) \<Rightarrow>
               if \<not> can_optimize then Inr (stack, h1)
               else
                 (let osr_id = deopt_id_for_osr
                        (code_at h1 (unoptimized_code (function_at h1 f))) (pc frame);
                      original_code = current_code (function_at h1 f);
                      compiled = CompileOptimizedFunction co f osr_id h1;
                      error = fst compiled;
                      h2 = snd compiled
                  in if error \<noteq> null then Inl (PropagatedError error)
                     else
                       (let optimized_code = current_code (function_at h2 f) in
                        if optimized_code \<noteq> original_code then
                          (let optimized_entry = entry_point (code_at h2 optimized_code);
                               h3 = SetCode f original_code h2
                           in Inr (set_pc optimized_entry stack, h3))
                        else Inr (stack, h2)))))"

definition StackOverflow ::
  "flags \<Rightarrow> interrupt_masks \<Rightarrow> collaborators \<Rightarrow> nat \<Rightarrow> Isolate \<Rightarrow> StackFrame list \<Rightarrow> heap
     \<Rightarrow> vm_error + (Isolate \<times> StackFrame list \<times> heap)" where
  "StackOverflow fl masks co stack_pos isolate stack h =
     (if stack_pos < saved_stack_limit isolate then Inl StackOverflowError
      else
        (let interrupt_bits = interrupts isolate;
             isolate1 = isolate\<lparr>interrupts := 0\<rparr>;
             h1 = (if interrupt_bits AND kStoreBufferInterrupt masks \<noteq> 0
                   then CollectGarbage co h else h);
             h2 = (if interrupt_bits AND kMessageInterrupt masks \<noteq> 0
                   then HandleOOBMessages co h1 else h1)
         in if interrupt_bits AND kApiInterrupt masks \<noteq> 0 \<and> InterruptCallback isolate = Some True
            then Inr (isolate1, stack, h2)
            else if interrupt_bits AND kApiInterrupt masks \<noteq> 0
                    \<and> InterruptCallback isolate = Some False
            then Inl Unimplemented
            else if FLAG_use_osr fl \<and> interrupt_bits = 0 then
              (case StackOverflow_osr fl co isolate1 stack h2 of
                 Inl e \<Rightarrow> Inl e
               | Inr (stack', h3) \<Rightarrow> Inr (isolate1, stack', h3))
            else Inr (isolate1, stack, h2)))"

subsection \<open>The subtype-test cache\<close>

record Instance =
  clazz :: int                      \<comment> \<open>the class id of \<^verbatim>\<open>clazz()\<close>\<close>
  type_arguments :: addr            \<comment> \<open>\<^verbatim>\<open>GetTypeArguments()\<close>\<close>

text \<open>
  The operations of the object model that the type engine calls; they are declared
  outside this file and are parameters here. Type-argument vectors and types are
  referred to by address, so equality of addresses is \<^verbatim>\<open>raw()\<close> identity.
\<close>

record object_model =
  NumTypeArguments :: "int \<Rightarrow> int"
  IsInstantiatedTypeArguments :: "addr \<Rightarrow> bool"
  IsCanonical :: "addr \<Rightarrow> bool"
  uninstantiated_type_arguments :: "addr \<Rightarrow> addr"
  instantiator_type_arguments :: "addr \<Rightarrow> addr"
  InstantiateFrom :: "addr \<Rightarrow> addr \<Rightarrow> addr \<times> addr"   \<comment> \<open>the vector and the bound error\<close>
  Canonicalize :: "addr \<Rightarrow> addr"
  IsInstanceOf :: "Instance \<Rightarrow> addr \<Rightarrow> addr \<Rightarrow> bool \<times> addr"  \<comment> \<open>the answer and the bound error\<close>
  GetTypeName :: "Instance \<Rightarrow> string"            \<comment> \<open>\<^verbatim>\<open>GetType()\<close>, then \<^verbatim>\<open>UserVisibleName()\<close>\<close>
  IsInstantiated :: "addr \<Rightarrow> bool"                 \<comment> \<open>of a type\<close>
  InstantiateTypeFrom :: "addr \<Rightarrow> addr \<Rightarrow> addr"
  UserVisibleName :: "addr \<Rightarrow> string"
  ToErrorCString :: "addr \<Rightarrow> string"

type_synonym check = "int \<times> addr \<times> addr \<times> bool"

record type_heap =
  instance_at :: "addr \<Rightarrow> Instance"
  cache_at :: "addr \<Rightarrow> check list"

definition SetTypeArguments :: "addr \<Rightarrow> addr \<Rightarrow> type_heap \<Rightarrow> type_heap" where
  "SetTypeArguments i v h =
     h\<lparr>instance_at := (instance_at h)(i := (instance_at h i)\<lparr>type_arguments := v\<rparr>)\<rparr>"

text \<open>
  Modelled from the spec: \<^verbatim>\<open>SubtypeTestCache::NumberOfChecks\<close> is declared outside this
  file; the cache is an append-only array of 4-tuples, and this is its length.
\<close>

definition NumberOfChecks :: "addr \<Rightarrow> type_heap \<Rightarrow> int" where
  "NumberOfChecks c h = int (length (cache_at h c))"

text \<open>
  Modelled from the spec: \<^verbatim>\<open>SubtypeTestCache::AddCheck\<close> is declared outside this file;
  it appends the new check to the array.
\<close>

definition AddCheck :: "addr \<Rightarrow> int \<Rightarrow> addr \<Rightarrow> addr \<Rightarrow> bool \<Rightarrow> type_heap \<Rightarrow> type_heap" where
  "AddCheck c cid instance_targs instantiator_targs result h =
     h\<lparr>cache_at := (cache_at h)(c := cache_at h c @ [(cid, instance_targs, instantiator_targs, result)])\<rparr>"

text \<open>
  The \<^verbatim>\<open>do ... while (type_arguments.IsInstantiatedTypeArguments())\<close> loop of
  \<^verbatim>\<open>OptimizeTypeArguments\<close>; \<open>None\<close> is "does not return".
\<close>

partial_function (option) instantiate_loop :: "object_model \<Rightarrow> addr \<Rightarrow> addr option" where
  "instantiate_loop om targs =
     (let uninstantiated = uninstantiated_type_arguments om targs;
          instantiator = instantiator_type_arguments om targs;
          targs' = fst (InstantiateFrom om uninstantiated instantiator)
      in if IsInstantiatedTypeArguments om targs' then instantiate_loop om targs'
         else Some targs')"

definition OptimizeTypeArguments ::
  "object_model \<Rightarrow> addr \<Rightarrow> type_heap \<Rightarrow> (bool \<times> type_heap) option" where
  "OptimizeTypeArguments om instance h =
     (if NumTypeArguments om (clazz (instance_at h instance)) = 0 then Some (False, h)
      else
        (let targs = type_arguments (instance_at h instance) in
         if targs = null then Some (False, h)
         else if IsInstantiatedTypeArguments om targs then
           (case instantiate_loop om targs of
              None \<Rightarrow> None
            | Some flat \<Rightarrow> Some (True, SetTypeArguments instance (Canonicalize om flat) h))
         else if \<not> IsCanonical om targs then
           Some (True, SetTypeArguments instance (Canonicalize om targs) h)
         else Some (False, h)))"

text \<open>
  The \<^verbatim>\<open>for\<close> loop over the checks of the cache: true when it returns at an entry
  with the given class id and type-argument vectors.
\<close>

fun duplicate_check :: "check list \<Rightarrow> int \<Rightarrow> addr \<Rightarrow> addr \<Rightarrow> bool" where
  "duplicate_check [] cid instance_targs instantiator_targs = False"
| "duplicate_check ((last_cid, last_instance_targs, last_instantiator_targs, last_result) # rest)
     cid instance_targs instantiator_targs =
     (if last_cid = cid \<and> last_instance_targs = instance_targs
         \<and> last_instantiator_targs = instantiator_targs
      then True
      else duplicate_check rest cid instance_targs instantiator_targs)"

definition UpdateTypeTestCache ::
  "flags \<Rightarrow> object_model \<Rightarrow> addr \<Rightarrow> addr \<Rightarrow> addr \<Rightarrow> addr \<Rightarrow> bool \<Rightarrow> addr \<Rightarrow> type_heap
     \<Rightarrow> type_heap option" where
  "UpdateTypeTestCache fl om instance type instantiator incoming_instantiator_targs result
     new_cache h =
     (if new_cache = null then Some h
      else
        (let instance_class = clazz (instance_at h instance) in
         case (if 0 < NumTypeArguments om instance_class
               then OptimizeTypeArguments om instance h else Some (False, h)) of
           None \<Rightarrow> None
         | Some (replaced1, h1) \<Rightarrow>
             (let instance_targs =
                    (if 0 < NumTypeArguments om instance_class
                     then type_arguments (instance_at h1 instance) else null) in
              case (if instantiator \<noteq> null
                    then OptimizeTypeArguments om instantiator h1 else Some (False, h1)) of
                None \<Rightarrow> None
              | Some (replaced2, h2) \<Rightarrow>
                  (let instantiator_targs =
                         (if instantiator \<noteq> null
                          then type_arguments (instance_at h2 instantiator)
                          else incoming_instantiator_targs);
                       len = NumberOfChecks new_cache h2
                   in if FLAG_max_subtype_cache_entries fl \<le> len then Some h2
                      else if duplicate_check (cache_at h2 new_cache) instance_class
                                instance_targs instantiator_targs
                      then Some h2
                      else if \<not> IsInstantiatedTypeArguments om instantiator_targs
                      then Some (AddCheck new_cache instance_class instance_targs
                                   instantiator_targs result h2)
                      else Some h2))))"

text \<open>
  The key of a check, and the key that \<^verbatim>\<open>UpdateTypeTestCache\<close> compares and stores:
  the values of \<^verbatim>\<open>instance_class.id()\<close>, \<^verbatim>\<open>instance_type_arguments\<close> and
  \<^verbatim>\<open>instantiator_type_arguments\<close> when its \<^verbatim>\<open>for\<close> loop starts, together with the
  heap at that point.
\<close>

fun check_key :: "check \<Rightarrow> int \<times> addr \<times> addr" where
  "check_key (cid, instance_targs, instantiator_targs, result) =
     (cid, instance_targs, instantiator_targs)"

definition test_cache_key ::
  "object_model \<Rightarrow> addr \<Rightarrow> addr \<Rightarrow> addr \<Rightarrow> type_heap
     \<Rightarrow> ((int \<times> addr \<times> addr) \<times> type_heap) option" where
  "test_cache_key om instance instantiator incoming_instantiator_targs h =
     (let instance_class = clazz (instance_at h instance) in
      case (if 0 < NumTypeArguments om instance_class
            then OptimizeTypeArguments om instance h else Some (False, h)) of
        None \<Rightarrow> None
      | Some (replaced1, h1) \<Rightarrow>
          (case (if instantiator \<noteq> null
                 then OptimizeTypeArguments om instantiator h1 else Some (False, h1)) of
             None \<Rightarrow> None
           | Some (replaced2, h2) \<Rightarrow>
               Some ((instance_class,
                      (if 0 < NumTypeArguments om instance_class
                       then type_arguments (instance_at h1 instance) else null),
                      (if instantiator \<noteq> null
                       then type_arguments (instance_at h2 instantiator)
                       else incoming_instantiator_targs)),
                     h2)))"

text \<open>
  The runtime entries. \<open>location\<close> is the token position of the Dart caller
  (\<^verbatim>\<open>GetCallerLocation()\<close>); \<^verbatim>\<open>Symbols::Empty()\<close> is the empty string and a null
  message is \<open>None\<close>.
\<close>

definition Instanceof ::
  "flags \<Rightarrow> object_model \<Rightarrow> int \<Rightarrow> addr \<Rightarrow> addr \<Rightarrow> addr \<Rightarrow> addr \<Rightarrow> addr \<Rightarrow> type_heap
     \<Rightarrow> (vm_error + (bool \<times> type_heap)) option" where
  "Instanceof fl om location instance type instantiator instantiator_targs cache h =
     (let answer = IsInstanceOf om (instance_at h instance) type instantiator_targs;
          result = fst answer;
          bound_error = snd answer
      in if \<not> result \<and> bound_error \<noteq> null then
           Some (Inl (TypeError location [] [] [] (Some (ToErrorCString om bound_error))))
         else
           (case UpdateTypeTestCache fl om instance type instantiator instantiator_targs
                   result cache h of
              None \<Rightarrow> None
            | Some h' \<Rightarrow> Some (Inr (result, h'))))"

definition TypeCheck ::
  "flags \<Rightarrow> object_model \<Rightarrow> int \<Rightarrow> addr \<Rightarrow> addr \<Rightarrow> addr \<Rightarrow> addr \<Rightarrow> string \<Rightarrow> addr \<Rightarrow> type_heap
     \<Rightarrow> (vm_error + (addr \<times> type_heap)) option" where
  "TypeCheck fl om location src_instance dst_type dst_instantiator instantiator_targs
     dst_name cache h =
     (let answer = IsInstanceOf om (instance_at h src_instance) dst_type instantiator_targs;
          is_instance_of = fst answer;
          bound_error = snd answer
      in if \<not> is_instance_of then
           (let src_type_name = GetTypeName om (instance_at h src_instance);
                dst_type_name =
                  (if \<not> IsInstantiated om dst_type
                   then UserVisibleName om (InstantiateTypeFrom om dst_type instantiator_targs)
                   else UserVisibleName om dst_type);
                bound_error_message =
                  (if bound_error \<noteq> null then Some (ToErrorCString om bound_error) else None)
            in Some (Inl (TypeError location src_type_name dst_type_name dst_name
                            bound_error_message)))
         else
           (case UpdateTypeTestCache fl om src_instance dst_type dst_instantiator
                   instantiator_targs True cache h of
              None \<Rightarrow> None
            | Some h' \<Rightarrow> Some (Inr (src_instance, h'))))"

text \<open>
  A sequence of calls of the two entries from Dart code. A thrown type error unwinds to
  a Dart handler, and the program goes on with the heap as the entry left it.
\<close>

datatype type_test_call =
    InstanceofCall int addr addr addr addr addr
  | TypeCheckCall int addr addr addr addr string addr

fun run_type_tests ::
  "flags \<Rightarrow> object_model \<Rightarrow> type_test_call list \<Rightarrow> type_heap \<Rightarrow> type_heap option" where
  "run_type_tests fl om [] h = Some h"
| "run_type_tests fl om (InstanceofCall loc i t inst targs c # calls) h =
     (case Instanceof fl om loc i t inst targs c h of
        None \<Rightarrow> None
      | Some (Inl e) \<Rightarrow> run_type_tests fl om calls h
      | Some (Inr (r, h')) \<Rightarrow> run_type_tests fl om calls h')"
| "run_type_tests fl om (TypeCheckCall loc i t inst targs name c # calls) h =
     (case TypeCheck fl om loc i t inst targs name c h of
        None \<Rightarrow> None
      | Some (Inl e) \<Rightarrow> run_type_tests fl om calls h
      | Some (Inr (r, h')) \<Rightarrow> run_type_tests fl om calls h')"

subsection \<open>The fallback of an instance call: getter, then \<^verbatim>\<open>noSuchMethod\<close>\<close>

record ICData =
  target_name :: string
  num_args_tested :: int
  ic_checks :: "(int list \<times> addr) list"   \<comment> \<open>class-id vector and target, in order\<close>

text \<open>
  Modelled from the spec: \<^verbatim>\<open>ICData::AddReceiverCheck\<close> is declared outside this file. The
  IC data holds an ordered list of checks; this appends the check of one class id.
\<close>

definition AddReceiverCheck :: "int \<Rightarrow> addr \<Rightarrow> ICData \<Rightarrow> ICData" where
  "AddReceiverCheck cid target ic = ic\<lparr>ic_checks := ic_checks ic @ [([cid], target)]\<rparr>"

text \<open>
  Modelled from the spec: \<^verbatim>\<open>ICData::AddCheck\<close> is declared outside this file; it appends
  the check of a vector of class ids.
\<close>

definition ICData_AddCheck :: "int list \<Rightarrow> addr \<Rightarrow> ICData \<Rightarrow> ICData" where
  "ICData_AddCheck class_ids target ic = ic\<lparr>ic_checks := ic_checks ic @ [(class_ids, target)]\<rparr>"

text \<open>
  Modelled from the spec: \<^verbatim>\<open>ICData::GetTargetForReceiverClassId\<close> is declared outside
  this file; it is the target of the first check whose receiver class id (the first of
  its class-id vector) is the given one, and null when there is none.
\<close>

fun receiver_cid_is :: "int \<Rightarrow> int list \<times> addr \<Rightarrow> bool" where
  "receiver_cid_is cid ([], target) = False"
| "receiver_cid_is cid (c # cids, target) = (c = cid)"

fun target_for_receiver :: "(int list \<times> addr) list \<Rightarrow> int \<Rightarrow> addr" where
  "target_for_receiver [] cid = null"
| "target_for_receiver (chk # rest) cid =
     (if receiver_cid_is cid chk then snd chk else target_for_receiver rest cid)"

definition GetTargetForReceiverClassId :: "int \<Rightarrow> ICData \<Rightarrow> addr" where
  "GetTargetForReceiverClassId cid ic = target_for_receiver (ic_checks ic) cid"

datatype dispatcher_kind = kInvokeFieldDispatcher | kNoSuchMethodDispatcher

text \<open>
  The resolver, the class of the receiver and the Dart entry are outside this file. A class
  is referred to by its id; the arguments array is the list of its elements.
\<close>

record ic_collaborators =
  GetterName :: "string \<Rightarrow> string"
  ResolveDynamicForReceiverClass :: "int \<Rightarrow> string \<Rightarrow> addr"
  IsMethodExtractor :: "addr \<Rightarrow> bool"
  GetInvocationDispatcher :: "int \<Rightarrow> string \<Rightarrow> addr \<Rightarrow> dispatcher_kind \<Rightarrow> addr"
  InvokeFunction :: "addr \<Rightarrow> addr list \<Rightarrow> addr \<Rightarrow> addr"
  IsError :: "addr \<Rightarrow> bool"
  GetClassId :: "addr \<Rightarrow> int"

definition CheckResultError :: "ic_collaborators \<Rightarrow> addr \<Rightarrow> vm_error + unit" where
  "CheckResultError co result =
     (if IsError co result then Inl (PropagatedError result) else Inr ())"

definition ResolveCallThroughGetter ::
  "ic_collaborators \<Rightarrow> addr \<Rightarrow> int \<Rightarrow> string \<Rightarrow> addr \<Rightarrow> addr list \<Rightarrow> ICData \<Rightarrow> addr
     \<Rightarrow> vm_error + (bool \<times> addr \<times> ICData)" where
  "ResolveCallThroughGetter co receiver receiver_class name arguments_descriptor arguments
     ic_data result =
     (let getter_name = GetterName co name;
          getter = ResolveDynamicForReceiverClass co receiver_class getter_name
      in if getter = null \<or> IsMethodExtractor co getter then Inr (False, result, ic_data)
         else
           (let target_function = GetInvocationDispatcher co receiver_class name
                                    arguments_descriptor kInvokeFieldDispatcher;
                ic_data' = AddReceiverCheck (GetClassId co receiver) target_function ic_data;
                result' = InvokeFunction co target_function arguments arguments_descriptor
            in case CheckResultError co result' of
                 Inl e \<Rightarrow> Inl e
               | Inr _ \<Rightarrow> Inr (True, result', ic_data')))"

text \<open>
  The loop \<^verbatim>\<open>for (i = 1; i < ic_data.num_args_tested(); ++i)\<close> that collects the class
  ids of the arguments; \<^verbatim>\<open>args.At(i)\<close> beyond the array is undefined behaviour.
\<close>

function class_ids_loop ::
  "ic_collaborators \<Rightarrow> addr list \<Rightarrow> int \<Rightarrow> int \<Rightarrow> int list \<Rightarrow> vm_error + int list" where
  "class_ids_loop co args n i class_ids =
     (if i < n then
        (if 0 \<le> i \<and> nat i < length args
         then class_ids_loop co args n (i + 1) (class_ids @ [GetClassId co (args ! nat i)])
         else Inl (UndefinedBehaviour ''args.At(i) out of range''))
      else Inr class_ids)"
  by pat_completeness auto
termination
  by (relation "measure (\<lambda>(co, args, n, i, class_ids). nat (n - i))") auto

declare class_ids_loop.simps [simp del]

definition InstanceFunctionLookup ::
  "ic_collaborators \<Rightarrow> addr \<Rightarrow> ICData \<Rightarrow> addr \<Rightarrow> addr list \<Rightarrow> vm_error + (addr \<times> ICData)" where
  "InstanceFunctionLookup co receiver ic_data args_descriptor args =
     (let receiver_class = GetClassId co receiver;
          name = target_name ic_data
      in case ResolveCallThroughGetter co receiver receiver_class name args_descriptor args
                ic_data null of
           Inl e \<Rightarrow> Inl e
         | Inr (True, result, ic_data') \<Rightarrow>
             (case CheckResultError co result of
                Inl e \<Rightarrow> Inl e
              | Inr _ \<Rightarrow> Inr (result, ic_data'))
         | Inr (False, result, ic_data') \<Rightarrow>
             (let target_function = GetInvocationDispatcher co receiver_class name
                                      args_descriptor kNoSuchMethodDispatcher;
                  receiver_cid = GetClassId co receiver
              in case (if num_args_tested ic_data' = 1 then
                         (if GetTargetForReceiverClassId receiver_cid ic_data' = null
                          then Inr (AddReceiverCheck receiver_cid target_function ic_data')
                          else Inr ic_data')
                       else
                         (case class_ids_loop co args (num_args_tested ic_data') 1 [receiver_cid] of
                            Inl e \<Rightarrow> Inl e
                          | Inr class_ids \<Rightarrow>
                              Inr (ICData_AddCheck class_ids target_function ic_data'))) of
                   Inl e \<Rightarrow> Inl e
                 | Inr ic_data'' \<Rightarrow>
                     (let result' = InvokeFunction co target_function args args_descriptor
                      in case CheckResultError co result' of
                           Inl e \<Rightarrow> Inl e
                         | Inr _ \<Rightarrow> Inr (result', ic_data''))))"

text \<open>The checks of the IC data whose receiver class id is the given one.\<close>

definition receiver_checks :: "int \<Rightarrow> ICData \<Rightarrow> (int list \<times> addr) list" where
  "receiver_checks cid ic = filter (receiver_cid_is cid) (ic_checks ic)"

subsection \<open>The deoptimization context of the isolate\<close>

record DeoptContext =
  ctx_frame :: StackFrame
  ctx_code :: addr
  ctx_fpu_registers :: "int list"
  ctx_cpu_registers :: "int list"
  ctx_dest_frame :: "int option"

text \<open>
  The isolate's pointer to the context (null when there is none) and the contexts made by
  \<^verbatim>\<open>new DeoptContext\<close>: the context at address \<open>n + 1\<close> is the \<open>n\<close>-th of the list, and
  is \<open>None\<close> once deleted.
\<close>

record deopt_state =
  deopt_context :: addr
  contexts :: "DeoptContext option list"

definition context_at :: "deopt_state \<Rightarrow> addr \<Rightarrow> DeoptContext option" where
  "context_at s p = (if p \<noteq> null \<and> p \<le> length (contexts s) then contexts s ! (p - 1) else None)"

text \<open>
  The constants of the target architecture, the saved registers in memory, the Dart
  frames found from a frame pointer, and the methods of \<^verbatim>\<open>DeoptContext\<close>: all declared
  outside this file.
\<close>

record deopt_collaborators =
  kNumberOfCpuRegisters :: nat
  kNumberOfFpuRegisters :: nat
  kWordSize :: int
  kFpuRegisterSize :: int
  kFirstLocalSlotFromFp :: int
  kDartFrameFixedSize :: int
  memory :: "int \<Rightarrow> int"
  frames_from :: "int \<Rightarrow> StackFrame list"
  DestStackAdjustment :: "DeoptContext \<Rightarrow> int"
  FillDestFrame :: "DeoptContext \<Rightarrow> DeoptContext"
  MaterializeDeferredObjects :: "DeoptContext \<Rightarrow> int"

definition CopySavedRegisters :: "deopt_collaborators \<Rightarrow> int \<Rightarrow> int list \<times> int list" where
  "CopySavedRegisters co saved_registers_address =
     (let fpu_registers_copy =
            map (\<lambda>i. memory co (saved_registers_address + int i * kFpuRegisterSize co))
              [0 ..< kNumberOfFpuRegisters co];
          cpu_start = saved_registers_address
                        + int (kNumberOfFpuRegisters co) * kFpuRegisterSize co;
          cpu_registers_copy =
            map (\<lambda>i. memory co (cpu_start + int i * kWordSize co))
              [0 ..< kNumberOfCpuRegisters co]
      in (fpu_registers_copy, cpu_registers_copy))"

definition DeoptimizeCopyFrame ::
  "deopt_collaborators \<Rightarrow> int \<Rightarrow> deopt_state \<Rightarrow> vm_error + (int \<times> deopt_state)" where
  "DeoptimizeCopyFrame co saved_registers_address s =
     (let last_fp = saved_registers_address
                      + int (kNumberOfCpuRegisters co) * kWordSize co
                      + int (kNumberOfFpuRegisters co) * kFpuRegisterSize co
                      - (kFirstLocalSlotFromFp co + 1) * kWordSize co
      in case fst (NextFrame (frames_from co last_fp)) of
           None \<Rightarrow> Inl (UndefinedBehaviour ''caller_frame is NULL'')
         | Some caller_frame \<Rightarrow>
             (let optimized_code = dart_code caller_frame;
                  registers = CopySavedRegisters co saved_registers_address;
                  ctx = \<lparr>ctx_frame = caller_frame, ctx_code = optimized_code,
                         ctx_fpu_registers = fst registers, ctx_cpu_registers = snd registers,
                         ctx_dest_frame = None\<rparr>;
                  deopt_context' = length (contexts s) + 1
              in Inr (DestStackAdjustment co ctx * kWordSize co,
                      s\<lparr>deopt_context := deopt_context',
                         contexts := contexts s @ [Some ctx]\<rparr>)))"

definition DeoptimizeFillFrame ::
  "deopt_collaborators \<Rightarrow> int \<Rightarrow> deopt_state \<Rightarrow> vm_error + deopt_state" where
  "DeoptimizeFillFrame co last_fp s =
     (case fst (NextFrame (frames_from co last_fp)) of
        None \<Rightarrow> Inl (UndefinedBehaviour ''caller_frame is NULL'')
      | Some caller_frame \<Rightarrow>
          (let start = int (sp caller_frame) - kDartFrameFixedSize co * kWordSize co
           in case context_at s (deopt_context s) of
                None \<Rightarrow> Inl (UndefinedBehaviour ''deopt_context is not a live context'')
              | Some ctx \<Rightarrow>
                  Inr (s\<lparr>contexts := (contexts s)
                          [deopt_context s - 1 :=
                             Some (FillDestFrame co (ctx\<lparr>ctx_dest_frame := Some start\<rparr>))]\<rparr>)))"

definition DeoptimizeMaterialize ::
  "deopt_collaborators \<Rightarrow> deopt_state \<Rightarrow> vm_error + (int \<times> deopt_state)" where
  "DeoptimizeMaterialize co s =
     (case context_at s (deopt_context s) of
        None \<Rightarrow> Inl (UndefinedBehaviour ''deopt_context is not a live context'')
      | Some ctx \<Rightarrow>
          (let deopt_arg_count = MaterializeDeferredObjects co ctx
           in Inr (deopt_arg_count * kWordSize co,
                   s\<lparr>deopt_context := null,
                      contexts := (contexts s)[deopt_context s - 1 := None]\<rparr>)))"

text \<open>A sequence of calls of the three deoptimization entries, stopping at the first error.\<close>

datatype deopt_entry = CopyFrame int | FillFrame int | Materialize

fun deopt_step :: "deopt_collaborators \<Rightarrow> deopt_entry \<Rightarrow> deopt_state \<Rightarrow> vm_error + deopt_state" where
  "deopt_step co (CopyFrame saved_registers_address) s =
     (case DeoptimizeCopyFrame co saved_registers_address s of
        Inl e \<Rightarrow> Inl e | Inr (adjustment, s') \<Rightarrow> Inr s')"
| "deopt_step co (FillFrame last_fp) s = DeoptimizeFillFrame co last_fp s"
| "deopt_step co Materialize s =
     (case DeoptimizeMaterialize co s of Inl e \<Rightarrow> Inl e | Inr (bytes, s') \<Rightarrow> Inr s')"

fun run_deopt :: "deopt_collaborators \<Rightarrow> deopt_entry list \<Rightarrow> deopt_state \<Rightarrow> vm_error + deopt_state" where
  "run_deopt co [] s = Inr s"
| "run_deopt co (e # es) s =
     (case deopt_step co e s of Inl err \<Rightarrow> Inl err | Inr s' \<Rightarrow> run_deopt co es s')"

text \<open>
  The window of the claim, in its own words: going back from the latest call, the first
  call that is a copy or a materialize is a copy.
\<close>

fun latest_is_copy :: "deopt_entry list \<Rightarrow> bool" where
  "latest_is_copy [] = False"
| "latest_is_copy (CopyFrame a # earlier) = True"
| "latest_is_copy (Materialize # earlier) = False"
| "latest_is_copy (FillFrame a # earlier) = latest_is_copy earlier"

definition in_deopt_window :: "deopt_entry list \<Rightarrow> bool" where
  "in_deopt_window entries = latest_is_copy (rev entries)"

subsection \<open>Test data\<close>

definition fn0 :: Function where
  "fn0 = \<lparr>qualified_name = ''Point.norm'', owner_cid = 40, usage_counter = 15000,
          deoptimization_counter = 0, is_optimizable = True,
          current_code = 5, unoptimized_code = 5\<rparr>"

definition code0 :: Code where
  "code0 = \<lparr>is_optimized = False, is_alive = True, code_function = 1, entry_point = 4096,
            lazy_deopt_pc = 0, deopt_info_at_pc = (\<lambda>_. null), deopt_id_for_osr = (\<lambda>_. 3)\<rparr>"

definition heap0 :: heap where
  "heap0 = \<lparr>function_at = (\<lambda>_. fn0), code_at = (\<lambda>_. code0), call_at = (\<lambda>_. None)\<rparr>"

definition flags0 :: flags where
  "flags0 = \<lparr>FLAG_deoptimization_counter_threshold = 250,
             FLAG_max_subtype_cache_entries = 100,
             FLAG_optimization_filter = None,
             FLAG_stop_on_excessive_deoptimization = False,
             FLAG_use_osr = True\<rparr>"

definition debugger_idle :: Debugger where
  "debugger_idle = \<lparr>IsStepping = False, HasBreakpoint = (\<lambda>_. False)\<rparr>"

definition debugger_stepping :: Debugger where
  "debugger_stepping = \<lparr>IsStepping = True, HasBreakpoint = (\<lambda>_. False)\<rparr>"

definition fn_opt :: Function where
  "fn_opt = fn0\<lparr>current_code := 7\<rparr>"

definition code_opt :: Code where
  "code_opt = \<lparr>is_optimized = True, is_alive = True, code_function = 1, entry_point = 8192,
               lazy_deopt_pc = 8800, deopt_info_at_pc = (\<lambda>_. 21), deopt_id_for_osr = (\<lambda>_. 0)\<rparr>"

text \<open>
  A heap in which the current code of every function is the optimized code \<open>7\<close> and its
  unoptimized code is \<open>5\<close>; the code objects \<open>7\<close> and \<open>9\<close> are optimized.
\<close>

definition heap_opt :: heap where
  "heap_opt = \<lparr>function_at = (\<lambda>_. fn_opt),
               code_at = (\<lambda>a. if a = 7 \<or> a = 9 then code_opt\<lparr>entry_point := 1024 * a\<rparr> else code0),
               call_at = (\<lambda>_. None)\<rparr>"

definition frame_unopt :: StackFrame where
  "frame_unopt = \<lparr>pc = 4200, sp = 65000, dart_code = 5\<rparr>"

definition frame_opt :: StackFrame where
  "frame_opt = \<lparr>pc = 7300, sp = 64000, dart_code = 7\<rparr>"

definition isolate0 :: Isolate where
  "isolate0 = \<lparr>debugger = debugger_idle, saved_stack_limit = 100, interrupts = 0,
               InterruptCallback = None, VmStatsCallback = None\<rparr>"

definition masks0 :: interrupt_masks where
  "masks0 = \<lparr>kApiInterrupt = 1, kMessageInterrupt = 2, kStoreBufferInterrupt = 4,
             kVmStatusInterrupt = 8\<rparr>"

text \<open>A compiler that installs the code object \<open>9\<close>, and one that bails out.\<close>

definition compiler_osr :: collaborators where
  "compiler_osr = \<lparr>CompileOptimizedFunction = (\<lambda>f osr_id h. (null, SetCode f 9 h)),
                   CollectGarbage = (\<lambda>h. h), HandleOOBMessages = (\<lambda>h. h)\<rparr>"

definition compiler_bailout :: collaborators where
  "compiler_bailout = \<lparr>CompileOptimizedFunction = (\<lambda>f osr_id h. (null, h)),
                       CollectGarbage = (\<lambda>h. h), HandleOOBMessages = (\<lambda>h. h)\<rparr>"

text \<open>
  An object model with one generic class (id \<open>30\<close>). The vector \<open>50\<close> is lazy and
  instantiates to the flat vector \<open>53\<close>, whose canonical representative is \<open>60\<close>. The
  types \<open>70\<close> and \<open>71\<close> are supertypes of every instance, \<open>72\<close> and \<open>73\<close> of none; testing
  against \<open>71\<close> or \<open>72\<close> reports the bound error \<open>90\<close>.
\<close>

definition om0 :: object_model where
  "om0 = \<lparr>NumTypeArguments = (\<lambda>cid. if cid = 30 then 1 else 0),
           IsInstantiatedTypeArguments = (\<lambda>a. a = 50),
           IsCanonical = (\<lambda>a. a = 60 \<or> a = 61),
           uninstantiated_type_arguments = (\<lambda>a. 51),
           instantiator_type_arguments = (\<lambda>a. 52),
           InstantiateFrom = (\<lambda>u i. (53, null)),
           Canonicalize = (\<lambda>a. if a = 53 then 60 else 61),
           IsInstanceOf = (\<lambda>i t targs. (t = 70 \<or> t = 71, if t = 71 \<or> t = 72 then 90 else null)),
           GetTypeName = (\<lambda>i. ''List<int>''),
           IsInstantiated = (\<lambda>t. True),
           InstantiateTypeFrom = (\<lambda>t targs. t),
           UserVisibleName = (\<lambda>t. ''Iterable<num>''),
           ToErrorCString = (\<lambda>e. ''type bound violated'')\<rparr>"

definition type_heap0 :: type_heap where
  "type_heap0 = \<lparr>instance_at = (\<lambda>a. \<lparr>clazz = 30, type_arguments = 50\<rparr>),
                  cache_at = (\<lambda>c. [])\<rparr>"

text \<open>The same heap with two checks in the cache \<open>8\<close>.\<close>

definition type_heap_full :: type_heap where
  "type_heap_full = type_heap0\<lparr>cache_at := (\<lambda>c. if c = 8 then [(31, 0, 0, True), (32, 0, 0, False)] else [])\<rparr>"

text \<open>A configuration with room for two checks, and a sequence of calls on the cache \<open>8\<close>.\<close>

definition flags2 :: flags where
  "flags2 = flags0\<lparr>FLAG_max_subtype_cache_entries := 2\<rparr>"

definition calls0 :: "type_test_call list" where
  "calls0 = [InstanceofCall 0 1 70 0 0 8, InstanceofCall 0 1 70 0 0 8,
             TypeCheckCall 0 2 71 0 62 ''x'' 8, InstanceofCall 0 1 72 0 62 8,
             InstanceofCall 0 2 70 0 63 8]"

text \<open>The heap \<open>type_heap0\<close> with one check in the cache \<open>8\<close>.\<close>

definition type_heap_one :: type_heap where
  "type_heap_one = type_heap0\<lparr>cache_at := (\<lambda>c. if c = 8 then [(30, 60, 0, True)] else [])\<rparr>"

text \<open>
  A target with two CPU registers and one FPU register, whose memory holds \<open>a + 1\<close> at
  address \<open>a\<close> and whose stack has the frame \<open>frame_opt\<close> above every frame pointer.
\<close>

definition deopt_co0 :: deopt_collaborators where
  "deopt_co0 = \<lparr>kNumberOfCpuRegisters = 2, kNumberOfFpuRegisters = 1, kWordSize = 8,
                 kFpuRegisterSize = 16, kFirstLocalSlotFromFp = - 2, kDartFrameFixedSize = 2,
                 memory = (\<lambda>a. a + 1), frames_from = (\<lambda>fp. [frame_opt]),
                 DestStackAdjustment = (\<lambda>ctx. 3), FillDestFrame = (\<lambda>ctx. ctx),
                 MaterializeDeferredObjects = (\<lambda>ctx. 1)\<rparr>"

definition deopt_state0 :: deopt_state where
  "deopt_state0 = \<lparr>deopt_context = null, contexts = []\<rparr>"

definition ctx0 :: DeoptContext where
  "ctx0 = \<lparr>ctx_frame = frame_opt, ctx_code = 7, ctx_fpu_registers = [1001],
           ctx_cpu_registers = [1017, 1025], ctx_dest_frame = None\<rparr>"

text \<open>
  A receiver class without getters, whose \<^verbatim>\<open>noSuchMethod\<close> dispatcher is the function
  \<open>88\<close>; the receiver \<open>1\<close> has class id \<open>30\<close>, the argument \<open>2\<close> class id \<open>31\<close>.
  The IC data of an operator call with two arguments tested, which has missed once
  before, for an argument of class \<open>32\<close>, and was given the dispatcher then; and the IC
  data of a call with one argument tested that holds the dispatcher for class \<open>30\<close>.
\<close>

definition ic_co0 :: ic_collaborators where
  "ic_co0 = \<lparr>GetterName = (\<lambda>name. ''get:'' @ name),
              ResolveDynamicForReceiverClass = (\<lambda>cls name. null),
              IsMethodExtractor = (\<lambda>f. False),
              GetInvocationDispatcher =
                (\<lambda>cls name desc kind.
                   case kind of kInvokeFieldDispatcher \<Rightarrow> 87 | kNoSuchMethodDispatcher \<Rightarrow> 88),
              InvokeFunction = (\<lambda>f args desc. 99),
              IsError = (\<lambda>obj. False),
              GetClassId = (\<lambda>obj. if obj = 2 then 31 else 30)\<rparr>"

definition ic_two_args :: ICData where
  "ic_two_args = \<lparr>target_name = ''[]'', num_args_tested = 2, ic_checks = [([30, 32], 88)]\<rparr>"

definition ic_one_arg :: ICData where
  "ic_one_arg = \<lparr>target_name = ''foo'', num_args_tested = 1, ic_checks = [([30], 88)]\<rparr>"

section \<open>Theorems\<close>

subsection \<open>C1: the usage counter after a failed optimizability check\<close>

lemma usage_counter_set [simp]:
  "usage_counter (function_at (set_usage_counter f v h) f) = v"
  by (simp add: set_usage_counter_def)

text \<open>
  C1, as stated, does not hold: when the debugger is single stepping (or has a breakpoint
  in the function) the predicate fails and the usage counter is reset to \<open>0\<close>, which is
  not a negative sentinel.
\<close>

theorem C1_debugger_counterexample:
  "CanOptimizeFunction flags0 debugger_stepping 1 heap0
     = Inr (False, set_usage_counter 1 0 heap0)
   \<and> usage_counter (function_at (set_usage_counter 1 0 heap0) 1) = 0
   \<and> \<not> usage_counter (function_at (set_usage_counter 1 0 heap0) 1) < 0"
  by (simp add: CanOptimizeFunction_def debugger_stepping_def)

text \<open>
  C1, amended: whenever the predicate returns false, the usage counter of the function is
  \<open>0\<close> if the debugger check failed and the sentinel \<open>kLowInvocationCount = -100000000\<close>
  if one of the other three checks failed (deoptimization counter at or above the
  threshold, no token of the optimization filter occurring in the qualified name,
  optimizability flag false).
\<close>

theorem C1_usage_counter_after_failure:
  assumes "CanOptimizeFunction fl dbg f h = Inr (False, h')"
  shows "usage_counter (function_at h' f) =
           (if IsStepping dbg \<or> HasBreakpoint dbg f then 0 else - 100000000)"
  using assms
  by (auto simp: CanOptimizeFunction_def kLowInvocationCount_def
           split: if_splits option.splits)

theorem C1_usage_counter_after_failure_witness:
  "CanOptimizeFunction (flags0\<lparr>FLAG_optimization_filter := Some ''Foo,bar''\<rparr>) debugger_idle 1 heap0
     = Inr (False, set_usage_counter 1 kLowInvocationCount heap0)
   \<and> usage_counter (function_at (set_usage_counter 1 kLowInvocationCount heap0) 1) = - 100000000"
proof -
  have run: "CanOptimizeFunction (flags0\<lparr>FLAG_optimization_filter := Some ''Foo,bar''\<rparr>)
               debugger_idle 1 heap0
             = Inr (False, set_usage_counter 1 kLowInvocationCount heap0)"
    by (simp add: CanOptimizeFunction_def flags0_def debugger_idle_def heap0_def fn0_def)
  from C1_usage_counter_after_failure [OF run] run show ?thesis
    by (simp add: debugger_idle_def)
qed


subsection \<open>C7: scheduling a lazy deoptimization\<close>

lemma function_at_DeoptimizeAt:
  "function_at (DeoptimizeAt c p h) =
     (if HasOptimizedCode (code_function (code_at h c)) h
      then (function_at h)(code_function (code_at h c) :=
              (function_at h (code_function (code_at h c)))
                \<lparr>current_code := unoptimized_code (function_at h (code_function (code_at h c)))\<rparr>)
      else function_at h)"
  by (simp add: DeoptimizeAt_def Let_def SwitchToUnoptimizedCode_def InsertCallAt_def
        set_is_alive_def)

lemma code_at_DeoptimizeAt:
  "code_at (DeoptimizeAt c p h) = (code_at h)(c := (code_at h c)\<lparr>is_alive := False\<rparr>)"
  by (simp add: DeoptimizeAt_def Let_def SwitchToUnoptimizedCode_def InsertCallAt_def
        set_is_alive_def)

lemma call_at_DeoptimizeAt:
  "call_at (DeoptimizeAt c p h) = (call_at h)(p \<mapsto> lazy_deopt_pc (code_at h c))"
  by (simp add: DeoptimizeAt_def Let_def SwitchToUnoptimizedCode_def InsertCallAt_def
        set_is_alive_def)

lemma more_DeoptimizeAt:
  "heap.more (DeoptimizeAt c p h) = heap.more h"
  by (simp add: DeoptimizeAt_def Let_def SwitchToUnoptimizedCode_def InsertCallAt_def
        set_is_alive_def)

lemma DeoptimizeAt_twice: "DeoptimizeAt c p (DeoptimizeAt c p h) = DeoptimizeAt c p h"
proof (rule heap.equality)
  let ?h' = "DeoptimizeAt c p h"
  let ?f = "code_function (code_at h c)"
  have f': "code_function (code_at ?h' c) = ?f"
    by (simp add: code_at_DeoptimizeAt)
  show "function_at (DeoptimizeAt c p ?h') = function_at ?h'"
  proof (cases "HasOptimizedCode ?f h")
    case True
    then show ?thesis
      by (simp add: function_at_DeoptimizeAt [of c p ?h'] f')
         (simp add: function_at_DeoptimizeAt [of c p h])
  next
    case False
    then have same: "function_at ?h' = function_at h"
      by (simp add: function_at_DeoptimizeAt)
    have "\<not> HasOptimizedCode ?f ?h'"
      using False by (auto simp: HasOptimizedCode_def same code_at_DeoptimizeAt)
    then show ?thesis
      by (simp add: function_at_DeoptimizeAt [of c p ?h'] f')
  qed
  show "code_at (DeoptimizeAt c p ?h') = code_at ?h'"
    by (simp add: code_at_DeoptimizeAt)
  show "call_at (DeoptimizeAt c p ?h') = call_at ?h'"
    by (simp add: call_at_DeoptimizeAt code_at_DeoptimizeAt)
  show "heap.more (DeoptimizeAt c p ?h') = heap.more ?h'"
    by (simp add: more_DeoptimizeAt)
qed

text \<open>
  C7: after \<^verbatim>\<open>DeoptimizeAt(code, pc)\<close> the code is not alive, the call at \<open>pc\<close> goes
  to the lazy-deoptimization address of the code, the function of the code has its
  unoptimized code as current code if it had optimized code before (and is untouched
  otherwise), and a second call with the same arguments changes nothing. The claim asks
  this of optimized code with a deoptimization descriptor at \<open>pc\<close>; it holds of every
  code object and \<open>pc\<close>.
\<close>

theorem C7_DeoptimizeAt:
  "\<not> is_alive (code_at (DeoptimizeAt c p h) c)
   \<and> call_at (DeoptimizeAt c p h) p = Some (lazy_deopt_pc (code_at h c))
   \<and> (HasOptimizedCode (code_function (code_at h c)) h \<longrightarrow>
        current_code (function_at (DeoptimizeAt c p h) (code_function (code_at h c)))
          = unoptimized_code (function_at h (code_function (code_at h c))))
   \<and> (\<not> HasOptimizedCode (code_function (code_at h c)) h \<longrightarrow>
        function_at (DeoptimizeAt c p h) = function_at h)
   \<and> DeoptimizeAt c p (DeoptimizeAt c p h) = DeoptimizeAt c p h"
  by (simp add: code_at_DeoptimizeAt call_at_DeoptimizeAt function_at_DeoptimizeAt
        DeoptimizeAt_twice)

theorem C7_DeoptimizeAt_witness:
  "is_optimized (code_at heap_opt 7) \<and> deopt_info_at_pc (code_at heap_opt 7) 7300 \<noteq> null
   \<and> HasOptimizedCode 1 heap_opt
   \<and> \<not> is_alive (code_at (DeoptimizeAt 7 7300 heap_opt) 7)
   \<and> call_at (DeoptimizeAt 7 7300 heap_opt) 7300 = Some 8800
   \<and> current_code (function_at (DeoptimizeAt 7 7300 heap_opt) 1) = 5
   \<and> \<not> HasOptimizedCode 1 (DeoptimizeAt 7 7300 heap_opt)
   \<and> function_at (DeoptimizeAt 7 7300 (DeoptimizeAt 7 7300 heap_opt))
       = function_at (DeoptimizeAt 7 7300 heap_opt)
   \<and> DeoptimizeAt 7 7300 (DeoptimizeAt 7 7300 heap_opt) = DeoptimizeAt 7 7300 heap_opt"
proof -
  have has: "HasOptimizedCode 1 heap_opt"
    by (simp add: HasOptimizedCode_def heap_opt_def fn_opt_def code_opt_def)
  have f: "code_function (code_at heap_opt 7) = 1"
    by (simp add: heap_opt_def code_opt_def)
  have unopt: "unoptimized_code (function_at heap_opt 1) = 5"
    by (simp add: heap_opt_def fn_opt_def fn0_def)
  have lazy: "lazy_deopt_pc (code_at heap_opt 7) = 8800"
    by (simp add: heap_opt_def code_opt_def)
  have pre: "is_optimized (code_at heap_opt 7) \<and> deopt_info_at_pc (code_at heap_opt 7) 7300 \<noteq> null"
    by (simp add: heap_opt_def code_opt_def)
  have after: "\<not> HasOptimizedCode 1 (DeoptimizeAt 7 7300 heap_opt)"
    by (simp add: HasOptimizedCode_def function_at_DeoptimizeAt code_at_DeoptimizeAt f has unopt)
       (simp add: heap_opt_def code0_def fn_opt_def fn0_def code_opt_def)
  have f': "code_function (code_at (DeoptimizeAt 7 7300 heap_opt) 7) = 1"
    by (simp add: code_at_DeoptimizeAt f)
  from C7_DeoptimizeAt [of 7 7300 heap_opt] C7_DeoptimizeAt [of 7 7300 "DeoptimizeAt 7 7300 heap_opt"]
    has f unopt lazy pre after f'
  show ?thesis by simp
qed

subsection \<open>C2: deoptimizing the frames of given owner classes\<close>

lemma DeoptimizeIfOwner_loop_returns_only_at_NULL:
  assumes "DeoptimizeIfOwner_loop classes frame h = Some y"
  shows "frame = None"
proof (rule DeoptimizeIfOwner_loop.raw_induct
         [where P = "\<lambda>classes frame h y. frame = None", OF _ assms])
  fix loop :: "int list \<Rightarrow> StackFrame option \<Rightarrow> heap \<Rightarrow> heap option"
    and cs fr h' y'
  assume IH: "\<And>cs fr h' y'. loop cs fr h' = Some y' \<Longrightarrow> fr = None"
    and step: "(case fr of
        None \<Rightarrow> Some h'
      | Some fr' \<Rightarrow>
          (let optimized_code = dart_code fr';
               h'' = (if is_optimized (code_at h' optimized_code) then
                       (let owner = owner_cid (function_at h' (code_function (code_at h' optimized_code)))
                        in if ContainsCid cs owner
                           then DeoptimizeAt optimized_code (pc fr') h' else h')
                     else h')
           in loop cs fr h'')) = Some y'"
  show "fr = None"
  proof (cases fr)
    case None then show ?thesis .
  next
    case (Some fr')
    with step have "\<exists>h''. loop cs fr h'' = Some y'" by (auto simp: Let_def)
    then show ?thesis using IH by blast
  qed
qed

lemma DeoptimizeIfOwner_diverges:
  "DeoptimizeIfOwner classes (fr # rest) h = None"
proof (cases "DeoptimizeIfOwner classes (fr # rest) h")
  case None then show ?thesis .
next
  case (Some y)
  then have "Some fr = (None :: StackFrame option)"
    using DeoptimizeIfOwner_loop_returns_only_at_NULL [of classes "Some fr" h y]
    by (simp add: DeoptimizeIfOwner_def NextFrame_def)
  then show ?thesis by simp
qed

text \<open>
  C2 asks that \<^verbatim>\<open>DeoptimizeIfOwner\<close> terminates on every finite stack. Its loop
  never advances the frame, so on a stack with one Dart frame (optimized code of an
  owner in the set, or unoptimized code and an empty set) it does not return, whereas
  \<^verbatim>\<open>DeoptimizeAll\<close>, whose loop ends with \<^verbatim>\<open>frame = iterator.NextFrame()\<close>,
  returns on the same stack.
\<close>

theorem C2_DeoptimizeIfOwner_never_returns:
  "DeoptimizeIfOwner [40] [frame_opt] heap_opt = None
   \<and> DeoptimizeIfOwner [] [frame_unopt] heap0 = None
   \<and> DeoptimizeAll [frame_opt] heap_opt = DeoptimizeAt 7 7300 heap_opt"
  by (simp add: DeoptimizeIfOwner_diverges DeoptimizeAll_def NextFrame_def frame_opt_def
        heap_opt_def code_opt_def)

subsection \<open>C3: on-stack replacement\<close>

text \<open>
  What an OSR attempt does (no stack overflow, no interrupt bit set, OSR enabled, the
  function of the topmost Dart frame optimizable, the compiler returning no error): if
  the current code of the function after the compilation differs from the one before,
  the entry calls \<^verbatim>\<open>SetCode(original_code)\<close> with the code that was current before the
  compilation and sets the pc of the frame to the entry point of the new code; if the
  current code is the same, the entry leaves the heap as the compiler returned it and
  the frame as it was.
\<close>

lemma StackOverflow_osr_attempt:
  assumes no_overflow: "\<not> stack_pos < saved_stack_limit isolate"
    and no_interrupt: "interrupts isolate = 0"
    and use_osr: "FLAG_use_osr fl"
    and frame: "stack = frame # rest"
    and f: "f = code_function (code_at h (dart_code frame))"
    and can: "CanOptimizeFunction fl (debugger isolate) f h = Inr (True, h1)"
    and compiled: "CompileOptimizedFunction co f
                     (deopt_id_for_osr (code_at h1 (unoptimized_code (function_at h1 f))) (pc frame))
                     h1 = (null, h2)"
  shows "StackOverflow fl masks co stack_pos isolate stack h =
           (if current_code (function_at h2 f) \<noteq> current_code (function_at h f)
            then Inr (isolate\<lparr>interrupts := 0\<rparr>,
                      frame\<lparr>pc := entry_point (code_at h2 (current_code (function_at h2 f)))\<rparr> # rest,
                      SetCode f (current_code (function_at h f)) h2)
            else Inr (isolate\<lparr>interrupts := 0\<rparr>, stack, h2))"
proof -
  from can have h1: "h1 = h"
    by (auto simp: CanOptimizeFunction_def split: if_splits)
  show ?thesis
    using no_overflow no_interrupt use_osr can compiled
    by (simp add: StackOverflow_def StackOverflow_osr_def frame NextFrame_def f [symmetric]
          h1 Let_def set_pc_def)
qed

text \<open>
  C3 asks that after a compilation that produced new code the current code of the
  function is its unoptimized code, and the comment in the entry says the same ("The OSR
  code does not work for calling the function, so restore the unoptimized code"). The
  entry restores \<^verbatim>\<open>original_code\<close> instead. Here the current code of the function is
  the optimized code \<open>7\<close> while a frame still runs its unoptimized code \<open>5\<close>; the
  compiler installs the code \<open>9\<close>, the frame is sent to the entry point of \<open>9\<close>, and
  the entry leaves \<open>7\<close> as the current code, not the unoptimized code \<open>5\<close>. With a
  compiler that bails out, the heap and the frame are as before.
\<close>

theorem C3_osr_restores_optimized_code:
  "StackOverflow flags0 masks0 compiler_osr 1000 isolate0 [frame_unopt] heap_opt
     = Inr (isolate0\<lparr>interrupts := 0\<rparr>, [frame_unopt\<lparr>pc := 9216\<rparr>],
            SetCode 1 7 (SetCode 1 9 heap_opt))
   \<and> current_code (function_at heap_opt 1) = 7
   \<and> current_code (function_at (snd (CompileOptimizedFunction compiler_osr 1 3 heap_opt)) 1) = 9
   \<and> entry_point (code_at (snd (CompileOptimizedFunction compiler_osr 1 3 heap_opt)) 9) = 9216
   \<and> current_code (function_at (SetCode 1 7 (SetCode 1 9 heap_opt)) 1) = 7
   \<and> unoptimized_code (function_at (SetCode 1 7 (SetCode 1 9 heap_opt)) 1) = 5
   \<and> current_code (function_at (SetCode 1 7 (SetCode 1 9 heap_opt)) 1)
       \<noteq> unoptimized_code (function_at (SetCode 1 7 (SetCode 1 9 heap_opt)) 1)
   \<and> StackOverflow flags0 masks0 compiler_bailout 1000 isolate0 [frame_unopt] heap_opt
       = Inr (isolate0\<lparr>interrupts := 0\<rparr>, [frame_unopt], heap_opt)"
  by (simp add: StackOverflow_def StackOverflow_osr_def isolate0_def flags0_def masks0_def
        compiler_osr_def compiler_bailout_def NextFrame_def frame_unopt_def heap_opt_def fn_opt_def fn0_def code0_def
        code_opt_def CanOptimizeFunction_def debugger_idle_def SetCode_def set_pc_def Let_def)

subsection \<open>The subtype-test cache: what a call does to the caches\<close>

lemma cache_at_OptimizeTypeArguments:
  "OptimizeTypeArguments om i h = Some (r, h') \<Longrightarrow> cache_at h' = cache_at h"
  by (auto simp: OptimizeTypeArguments_def SetTypeArguments_def Let_def
           split: if_splits option.splits)

lemma duplicate_check_iff:
  "duplicate_check cs cid a b = ((cid, a, b) \<in> set (map check_key cs))"
  by (induction cs cid a b rule: duplicate_check.induct) auto

lemma test_cache_key_SomeD:
  assumes "test_cache_key om i inst inc h = Some (k, h2)"
  obtains r1 h1 r2 where
    "(if 0 < NumTypeArguments om (clazz (instance_at h i))
      then OptimizeTypeArguments om i h else Some (False, h)) = Some (r1, h1)"
    "(if inst \<noteq> null then OptimizeTypeArguments om inst h1 else Some (False, h1)) = Some (r2, h2)"
    "k = (clazz (instance_at h i),
          (if 0 < NumTypeArguments om (clazz (instance_at h i))
           then type_arguments (instance_at h1 i) else null),
          (if inst \<noteq> null then type_arguments (instance_at h2 inst) else inc))"
proof -
  let ?o1 = "(if 0 < NumTypeArguments om (clazz (instance_at h i))
      then OptimizeTypeArguments om i h else Some (False, h))"
  from assms obtain r1 h1 where o1: "?o1 = Some (r1, h1)"
    unfolding test_cache_key_def Let_def by (cases ?o1) auto
  let ?o2 = "(if inst \<noteq> null then OptimizeTypeArguments om inst h1 else Some (False, h1))"
  from assms o1 obtain r2 h2' where o2: "?o2 = Some (r2, h2')"
    unfolding test_cache_key_def Let_def by (cases ?o2) auto
  from assms o1 o2 have "h2' = h2" and "k = (clazz (instance_at h i),
          (if 0 < NumTypeArguments om (clazz (instance_at h i))
           then type_arguments (instance_at h1 i) else null),
          (if inst \<noteq> null then type_arguments (instance_at h2 inst) else inc))"
    unfolding test_cache_key_def Let_def by auto
  with o1 o2 that show thesis by blast
qed

lemma cache_at_test_cache_key:
  assumes "test_cache_key om i inst inc h = Some (k, h2)"
  shows "cache_at h2 = cache_at h"
proof -
  from assms obtain r1 h1 r2 where
    o1: "(if 0 < NumTypeArguments om (clazz (instance_at h i))
      then OptimizeTypeArguments om i h else Some (False, h)) = Some (r1, h1)"
    and o2: "(if inst \<noteq> null then OptimizeTypeArguments om inst h1 else Some (False, h1)) = Some (r2, h2)"
    by (rule test_cache_key_SomeD)
  from o1 have "cache_at h1 = cache_at h"
    by (auto split: if_splits dest: cache_at_OptimizeTypeArguments)
  moreover from o2 have "cache_at h2 = cache_at h1"
    by (auto split: if_splits dest: cache_at_OptimizeTypeArguments)
  ultimately show ?thesis by simp
qed


lemma UpdateTypeTestCache_by_key:
  "UpdateTypeTestCache fl om i t inst inc r c h =
     (if c = null then Some h
      else case test_cache_key om i inst inc h of
        None \<Rightarrow> None
      | Some (k, h2) \<Rightarrow>
          if FLAG_max_subtype_cache_entries fl \<le> NumberOfChecks c h2 then Some h2
          else if duplicate_check (cache_at h2 c) (fst k) (fst (snd k)) (snd (snd k)) then Some h2
          else if \<not> IsInstantiatedTypeArguments om (snd (snd k))
          then Some (AddCheck c (fst k) (fst (snd k)) (snd (snd k)) r h2)
          else Some h2)"
proof (cases "c = null")
  case True
  then show ?thesis by (simp add: UpdateTypeTestCache_def)
next
  case False
  let ?o1 = "(if 0 < NumTypeArguments om (clazz (instance_at h i))
      then OptimizeTypeArguments om i h else Some (False, h))"
  show ?thesis
  proof (cases ?o1)
    case None
    then show ?thesis
      using False unfolding UpdateTypeTestCache_def test_cache_key_def Let_def by simp
  next
    case (Some p1)
    obtain r1 h1 where p1: "p1 = (r1, h1)" by (cases p1)
    let ?o2 = "(if inst \<noteq> null then OptimizeTypeArguments om inst h1 else Some (False, h1))"
    show ?thesis
    proof (cases ?o2)
      case None
      then show ?thesis
        using False Some p1 unfolding UpdateTypeTestCache_def test_cache_key_def Let_def by simp
    next
      case (Some p2)
      obtain r2 h2 where p2: "p2 = (r2, h2)" by (cases p2)
      show ?thesis
        using False \<open>?o1 = Some p1\<close> p1 Some p2
        unfolding UpdateTypeTestCache_def test_cache_key_def Let_def by simp
    qed
  qed
qed


lemma UpdateTypeTestCache_effect:
  assumes "UpdateTypeTestCache fl om i t inst inc r c h = Some h'"
  shows "cache_at h' = cache_at h
         \<or> (\<exists>k h2. test_cache_key om i inst inc h = Some (k, h2) \<and> c \<noteq> null
               \<and> NumberOfChecks c h < FLAG_max_subtype_cache_entries fl
               \<and> k \<notin> set (map check_key (cache_at h c))
               \<and> \<not> IsInstantiatedTypeArguments om (snd (snd k))
               \<and> cache_at h' = (cache_at h)
                     (c := cache_at h c @ [(fst k, fst (snd k), snd (snd k), r)]))"
proof (cases "c = null")
  case True
  with assms show ?thesis by (simp add: UpdateTypeTestCache_def)
next
  case False
  with assms obtain k h2 where key: "test_cache_key om i inst inc h = Some (k, h2)"
    by (cases "test_cache_key om i inst inc h") (auto simp: UpdateTypeTestCache_by_key)
  have same: "cache_at h2 = cache_at h"
    using key by (rule cache_at_test_cache_key)
  have dup: "duplicate_check (cache_at h c) (fst k) (fst (snd k)) (snd (snd k))
               = (k \<in> set (map check_key (cache_at h c)))"
    using duplicate_check_iff [of "cache_at h c" "fst k" "fst (snd k)" "snd (snd k)"] by simp
  from assms False key same dup show ?thesis
    by (auto simp: UpdateTypeTestCache_by_key NumberOfChecks_def AddCheck_def
             split: if_splits)
qed

lemma UpdateTypeTestCache_length:
  assumes "UpdateTypeTestCache fl om i t inst inc r c h = Some h'"
    and "int (length (cache_at h c0)) \<le> FLAG_max_subtype_cache_entries fl"
  shows "int (length (cache_at h' c0)) \<le> FLAG_max_subtype_cache_entries fl"
  using UpdateTypeTestCache_effect [OF assms(1)] assms(2)
  by (auto simp: NumberOfChecks_def)

lemma UpdateTypeTestCache_distinct:
  assumes "UpdateTypeTestCache fl om i t inst inc r c h = Some h'"
    and "distinct (map check_key (cache_at h c0))"
  shows "distinct (map check_key (cache_at h' c0))"
  using UpdateTypeTestCache_effect [OF assms(1)] assms(2)
  by (cases "c0 = c") auto

lemma Instanceof_returns:
  assumes "Instanceof fl om loc i t inst targs c h = Some (Inr (r, h'))"
  shows "UpdateTypeTestCache fl om i t inst targs r c h = Some h'"
  using assms by (auto simp: Instanceof_def Let_def split: if_splits option.splits)

lemma TypeCheck_returns:
  assumes "TypeCheck fl om loc i t inst targs name c h = Some (Inr (r, h'))"
  shows "UpdateTypeTestCache fl om i t inst targs True c h = Some h'"
  using assms by (auto simp: TypeCheck_def Let_def split: if_splits option.splits)

lemma run_type_tests_length:
  assumes "run_type_tests fl om calls h = Some h'"
    and "int (length (cache_at h c0)) \<le> FLAG_max_subtype_cache_entries fl"
  shows "int (length (cache_at h' c0)) \<le> FLAG_max_subtype_cache_entries fl"
  using assms
proof (induction fl om calls h rule: run_type_tests.induct)
  case (1 fl om h)
  then show ?case by simp
next
  case (2 fl om loc i t inst targs c calls h)
  then show ?case
    by (auto split: option.splits sum.splits
             dest!: Instanceof_returns dest: UpdateTypeTestCache_length)
next
  case (3 fl om loc i t inst targs name c calls h)
  then show ?case
    by (auto split: option.splits sum.splits
             dest!: TypeCheck_returns dest: UpdateTypeTestCache_length)
qed

lemma run_type_tests_distinct:
  assumes "run_type_tests fl om calls h = Some h'"
    and "distinct (map check_key (cache_at h c0))"
  shows "distinct (map check_key (cache_at h' c0))"
  using assms
proof (induction fl om calls h rule: run_type_tests.induct)
  case (1 fl om h)
  then show ?case by simp
next
  case (2 fl om loc i t inst targs c calls h)
  then show ?case
    by (auto split: option.splits sum.splits
             dest!: Instanceof_returns dest: UpdateTypeTestCache_distinct)
next
  case (3 fl om loc i t inst targs name c calls h)
  then show ?case
    by (auto split: option.splits sum.splits
             dest!: TypeCheck_returns dest: UpdateTypeTestCache_distinct)
qed


lemma UpdateTypeTestCache_returns:
  assumes "test_cache_key om i inst inc h = Some (k, h2)"
  shows "\<exists>h'. UpdateTypeTestCache fl om i t inst inc r c h = Some h'"
  using assms by (simp add: UpdateTypeTestCache_by_key)

lemma instantiate_loop_flat:
  assumes "\<not> IsInstantiatedTypeArguments om
             (fst (InstantiateFrom om (uninstantiated_type_arguments om targs)
                     (instantiator_type_arguments om targs)))"
  shows "instantiate_loop om targs =
           Some (fst (InstantiateFrom om (uninstantiated_type_arguments om targs)
                        (instantiator_type_arguments om targs)))"
  using assms by (subst instantiate_loop.simps) (simp add: Let_def)

lemma instantiate_loop_om0: "instantiate_loop om0 targs = Some 53"
  using instantiate_loop_flat [of om0 targs] by (simp add: om0_def)

lemma om0_simps:
  "NumTypeArguments om0 cid = (if cid = 30 then 1 else 0)"
  "IsInstantiatedTypeArguments om0 a = (a = 50)"
  "IsCanonical om0 a = (a = 60 \<or> a = 61)"
  "Canonicalize om0 a = (if a = 53 then 60 else 61)"
  "IsInstanceOf om0 i t targs = (t = 70 \<or> t = 71, if t = 71 \<or> t = 72 then 90 else null)"
  "GetTypeName om0 i = ''List<int>''"
  "IsInstantiated om0 t = True"
  "UserVisibleName om0 t = ''Iterable<num>''"
  "ToErrorCString om0 e = ''type bound violated''"
  by (simp_all add: om0_def)

lemma run_calls0:
  "\<exists>h'. run_type_tests flags2 om0 calls0 type_heap0 = Some h'
         \<and> cache_at h' 8 = [(30, 60, 0, True), (30, 60, 62, True)]"
  by (simp add: calls0_def Instanceof_def TypeCheck_def UpdateTypeTestCache_def
        OptimizeTypeArguments_def instantiate_loop_om0 Let_def NumberOfChecks_def AddCheck_def
        SetTypeArguments_def flags2_def flags0_def om0_simps type_heap0_def)

subsection \<open>C4: the cache does not grow beyond the configured maximum\<close>

text \<open>
  C4: along every sequence of \<^verbatim>\<open>Instanceof\<close> and \<^verbatim>\<open>TypeCheck\<close> calls, a cache that
  holds at most \<^verbatim>\<open>FLAG_max_subtype_cache_entries\<close> checks before the sequence holds at
  most that many after it; and a call of \<^verbatim>\<open>UpdateTypeTestCache\<close> on a cache that is at
  or above the maximum leaves every cache as it was.
\<close>

theorem C4_cache_bounded:
  "(run_type_tests fl om calls h = Some h' \<longrightarrow>
      NumberOfChecks c h \<le> FLAG_max_subtype_cache_entries fl \<longrightarrow>
      NumberOfChecks c h' \<le> FLAG_max_subtype_cache_entries fl)
   \<and> (UpdateTypeTestCache fl om i t inst inc r c g = Some g' \<longrightarrow>
      FLAG_max_subtype_cache_entries fl \<le> NumberOfChecks c g \<longrightarrow>
      cache_at g' = cache_at g)"
proof (intro conjI impI)
  assume "run_type_tests fl om calls h = Some h'"
    and "NumberOfChecks c h \<le> FLAG_max_subtype_cache_entries fl"
  then show "NumberOfChecks c h' \<le> FLAG_max_subtype_cache_entries fl"
    unfolding NumberOfChecks_def by (rule run_type_tests_length)
next
  assume "UpdateTypeTestCache fl om i t inst inc r c g = Some g'"
    and "FLAG_max_subtype_cache_entries fl \<le> NumberOfChecks c g"
  then show "cache_at g' = cache_at g"
    using UpdateTypeTestCache_effect [of fl om i t inst inc r c g g'] by auto
qed

theorem C4_cache_bounded_witness:
  "\<exists>h1 h2. run_type_tests flags2 om0 calls0 type_heap0 = Some h1
     \<and> NumberOfChecks 8 type_heap0 \<le> FLAG_max_subtype_cache_entries flags2
     \<and> cache_at h1 8 = [(30, 60, 0, True), (30, 60, 62, True)]
     \<and> NumberOfChecks 8 h1 \<le> FLAG_max_subtype_cache_entries flags2
     \<and> FLAG_max_subtype_cache_entries flags2 \<le> NumberOfChecks 8 h1
     \<and> UpdateTypeTestCache flags2 om0 2 70 0 64 True 8 h1 = Some h2
     \<and> cache_at h2 = cache_at h1"
proof -
  from run_calls0 obtain h1 where run: "run_type_tests flags2 om0 calls0 type_heap0 = Some h1"
    and cache: "cache_at h1 8 = [(30, 60, 0, True), (30, 60, 62, True)]"
    by blast
  have start: "NumberOfChecks 8 type_heap0 \<le> FLAG_max_subtype_cache_entries flags2"
    by (simp add: NumberOfChecks_def type_heap0_def flags2_def)
  have full: "FLAG_max_subtype_cache_entries flags2 \<le> NumberOfChecks 8 h1"
    by (simp add: NumberOfChecks_def cache flags2_def)
  have "\<exists>k h2. test_cache_key om0 2 0 64 h1 = Some (k, h2)"
    by (simp add: test_cache_key_def OptimizeTypeArguments_def instantiate_loop_om0 Let_def
          split: option.splits)
  then obtain h2 where upd: "UpdateTypeTestCache flags2 om0 2 70 0 64 True 8 h1 = Some h2"
    using UpdateTypeTestCache_returns [of om0 2 0 64 h1] by blast
  from C4_cache_bounded [where fl = flags2 and om = om0 and calls = calls0 and h = type_heap0
         and h' = h1 and c = 8 and i = 2 and t = 70 and inst = 0 and inc = 64 and r = True
         and g = h1 and g' = h2]
    run start full upd
  have "NumberOfChecks 8 h1 \<le> FLAG_max_subtype_cache_entries flags2"
    and "cache_at h2 = cache_at h1" by simp_all
  with run start full upd cache show ?thesis by blast
qed

subsection \<open>C5: no two checks with the same key\<close>

lemma test_cache_key_om0:
  assumes "instance_at h 1 = \<lparr>clazz = 30, type_arguments = 50\<rparr>"
  shows "test_cache_key om0 1 0 inc h = Some ((30, 60, inc), SetTypeArguments 1 60 h)"
  using assms
  by (simp add: test_cache_key_def OptimizeTypeArguments_def instantiate_loop_om0 Let_def
        om0_simps SetTypeArguments_def)

text \<open>
  C5: a check is identified by its key, the triple of instance class id, instance
  type-argument vector and instantiator type-argument vector, the vectors compared by
  address. Along every sequence of \<^verbatim>\<open>Instanceof\<close> and \<^verbatim>\<open>TypeCheck\<close> calls, a cache
  whose checks have pairwise different keys keeps that property; and a call of
  \<^verbatim>\<open>UpdateTypeTestCache\<close> whose key, taken after canonicalization, is the key of a
  check of the cache leaves every cache as it was.
\<close>

theorem C5_cache_keys_distinct:
  "(run_type_tests fl om calls h = Some h' \<longrightarrow>
      distinct (map check_key (cache_at h c)) \<longrightarrow>
      distinct (map check_key (cache_at h' c)))
   \<and> (test_cache_key om i inst inc g = Some (k, gm) \<longrightarrow>
      k \<in> set (map check_key (cache_at g c)) \<longrightarrow>
      (\<exists>g'. UpdateTypeTestCache fl om i t inst inc r c g = Some g' \<and> cache_at g' = cache_at g))"
proof (intro conjI impI)
  assume "run_type_tests fl om calls h = Some h'"
    and "distinct (map check_key (cache_at h c))"
  then show "distinct (map check_key (cache_at h' c))"
    by (rule run_type_tests_distinct)
next
  assume key: "test_cache_key om i inst inc g = Some (k, gm)"
    and dup: "k \<in> set (map check_key (cache_at g c))"
  have same: "cache_at gm = cache_at g"
    using key by (rule cache_at_test_cache_key)
  have "duplicate_check (cache_at gm c) (fst k) (fst (snd k)) (snd (snd k))"
    using dup by (simp add: duplicate_check_iff same)
  then show "\<exists>g'. UpdateTypeTestCache fl om i t inst inc r c g = Some g' \<and> cache_at g' = cache_at g"
    using key same by (simp add: UpdateTypeTestCache_by_key)
qed

theorem C5_cache_keys_distinct_witness:
  "\<exists>h1. run_type_tests flags2 om0 calls0 type_heap0 = Some h1
     \<and> distinct (map check_key (cache_at type_heap0 8))
     \<and> cache_at h1 8 = [(30, 60, 0, True), (30, 60, 62, True)]
     \<and> distinct (map check_key (cache_at h1 8))
     \<and> test_cache_key om0 1 0 0 type_heap_one = Some ((30, 60, 0), SetTypeArguments 1 60 type_heap_one)
     \<and> (30, 60, 0) \<in> set (map check_key (cache_at type_heap_one 8))
     \<and> (\<exists>g'. UpdateTypeTestCache flags0 om0 1 70 0 0 True 8 type_heap_one = Some g'
              \<and> cache_at g' = cache_at type_heap_one)"
proof -
  from run_calls0 obtain h1 where run: "run_type_tests flags2 om0 calls0 type_heap0 = Some h1"
    and cache: "cache_at h1 8 = [(30, 60, 0, True), (30, 60, 62, True)]"
    by blast
  have start: "distinct (map check_key (cache_at type_heap0 8))"
    by (simp add: type_heap0_def)
  have key: "test_cache_key om0 1 0 0 type_heap_one
               = Some ((30, 60, 0), SetTypeArguments 1 60 type_heap_one)"
    by (rule test_cache_key_om0) (simp add: type_heap_one_def type_heap0_def)
  have dup: "(30, 60, 0) \<in> set (map check_key (cache_at type_heap_one 8))"
    by (simp add: type_heap_one_def)
  from C5_cache_keys_distinct [where fl = flags2 and om = om0 and calls = calls0
         and h = type_heap0 and h' = h1 and c = 8] run start
  have d: "distinct (map check_key (cache_at h1 8))" by simp
  from C5_cache_keys_distinct [where fl = flags0 and om = om0 and calls = "[]"
         and h = type_heap0 and h' = type_heap0 and c = 8 and g = type_heap_one
         and gm = "SetTypeArguments 1 60 type_heap_one" and k = "(30, 60, 0)" and i = 1
         and inst = 0 and inc = 0 and t = 70 and r = True] key dup
  have "\<exists>g'. UpdateTypeTestCache flags0 om0 1 70 0 0 True 8 type_heap_one = Some g'
              \<and> cache_at g' = cache_at type_heap_one" by simp
  with run start cache d key dup show ?thesis by blast
qed

subsection \<open>C10: when \<^verbatim>\<open>Instanceof\<close> throws, and what it does to the cache\<close>

lemma UpdateTypeTestCache_value:
  assumes key: "test_cache_key om i inst inc h = Some (k, hk)"
  shows "UpdateTypeTestCache fl om i t inst inc r c h =
           Some (if c = null then h
                 else if NumberOfChecks c h < FLAG_max_subtype_cache_entries fl
                         \<and> k \<notin> set (map check_key (cache_at h c))
                         \<and> \<not> IsInstantiatedTypeArguments om (snd (snd k))
                 then AddCheck c (fst k) (fst (snd k)) (snd (snd k)) r hk
                 else hk)"
proof -
  have same: "cache_at hk = cache_at h"
    using key by (rule cache_at_test_cache_key)
  show ?thesis
    using key same
    by (auto simp: UpdateTypeTestCache_by_key duplicate_check_iff NumberOfChecks_def)
qed

text \<open>
  C10, as stated, does not hold in its last part: when the test answers true the entry
  returns true, but the cache is not always updated. With room for two checks and two
  checks in the cache, the test against the type \<open>71\<close> answers true and reports the bound
  error \<open>90\<close>; the entry returns true and every cache is as before. With a null cache the
  entry returns true and the heap is as before.
\<close>

theorem C10_no_cache_update_counterexample:
  "IsInstanceOf om0 (instance_at type_heap_full 1) 71 0 = (True, 90)
   \<and> Instanceof flags2 om0 5 1 71 0 0 8 type_heap_full
       = Some (Inr (True, SetTypeArguments 1 60 type_heap_full))
   \<and> cache_at (SetTypeArguments 1 60 type_heap_full) = cache_at type_heap_full
   \<and> cache_at (SetTypeArguments 1 60 type_heap_full) 8 = [(31, 0, 0, True), (32, 0, 0, False)]
   \<and> (30, 60, 0, True) \<notin> set (cache_at (SetTypeArguments 1 60 type_heap_full) 8)
   \<and> Instanceof flags0 om0 5 1 71 0 0 null type_heap0 = Some (Inr (True, type_heap0))"
proof -
  have answer: "IsInstanceOf om0 (instance_at type_heap_full 1) 71 0 = (True, 90)"
    and answer0: "IsInstanceOf om0 (instance_at type_heap0 1) 71 0 = (True, 90)"
    by (simp_all add: om0_simps)
  have key: "test_cache_key om0 1 0 0 type_heap_full
               = Some ((30, 60, 0), SetTypeArguments 1 60 type_heap_full)"
    by (rule test_cache_key_om0) (simp add: type_heap_full_def type_heap0_def)
  have at_max: "\<not> NumberOfChecks 8 type_heap_full < FLAG_max_subtype_cache_entries flags2"
    by (simp add: NumberOfChecks_def type_heap_full_def flags2_def flags0_def)
  have full: "UpdateTypeTestCache flags2 om0 1 71 0 0 True 8 type_heap_full
                = Some (SetTypeArguments 1 60 type_heap_full)"
    using UpdateTypeTestCache_value [OF key, of flags2 71 True 8] at_max by simp
  have no_cache: "UpdateTypeTestCache flags0 om0 1 71 0 0 True null type_heap0 = Some type_heap0"
    by (simp add: UpdateTypeTestCache_def)
  have caches: "cache_at (SetTypeArguments 1 60 type_heap_full) = cache_at type_heap_full"
    by (simp add: SetTypeArguments_def)
  have cache8: "cache_at type_heap_full 8 = [(31, 0, 0, True), (32, 0, 0, False)]"
    by (simp add: type_heap_full_def)
  from answer answer0 full no_cache caches cache8 show ?thesis
    by (simp add: Instanceof_def)
qed

text \<open>
  C10, amended: \<^verbatim>\<open>Instanceof\<close> throws if and only if the instance-of test answers false
  and reports a bound error; what it throws is a type error with empty names and the
  bound error message. Otherwise (in particular when the test answers true, whether or
  not a bound error was reported) the entry returns the answer of the test, and the check
  with that answer is appended to the cache exactly when the cache is not null, holds
  fewer than \<^verbatim>\<open>FLAG_max_subtype_cache_entries\<close> checks and none with the same key, and
  the instantiator type arguments are not \<^verbatim>\<open>InstantiatedTypeArguments\<close>; otherwise the
  caches are left as they were.
\<close>

theorem C10_Instanceof:
  "((\<exists>e. Instanceof fl om loc i t inst targs c h = Some (Inl e)) \<longleftrightarrow>
      (\<not> fst (IsInstanceOf om (instance_at h i) t targs)
       \<and> snd (IsInstanceOf om (instance_at h i) t targs) \<noteq> null))
   \<and> (Instanceof fl om loc i t inst targs c h = Some (Inl e) \<longrightarrow>
        e = TypeError loc [] [] []
              (Some (ToErrorCString om (snd (IsInstanceOf om (instance_at h i) t targs)))))
   \<and> (fst (IsInstanceOf om (instance_at h i) t targs)
        \<or> snd (IsInstanceOf om (instance_at h i) t targs) = null \<longrightarrow>
      test_cache_key om i inst targs h = Some (k, hk) \<longrightarrow>
      Instanceof fl om loc i t inst targs c h =
        Some (Inr (fst (IsInstanceOf om (instance_at h i) t targs),
          if c = null then h
          else if NumberOfChecks c h < FLAG_max_subtype_cache_entries fl
                  \<and> k \<notin> set (map check_key (cache_at h c))
                  \<and> \<not> IsInstantiatedTypeArguments om (snd (snd k))
          then AddCheck c (fst k) (fst (snd k)) (snd (snd k))
                 (fst (IsInstanceOf om (instance_at h i) t targs)) hk
          else hk)))"
proof (intro conjI impI)
  let ?answer = "IsInstanceOf om (instance_at h i) t targs"
  show "(\<exists>e. Instanceof fl om loc i t inst targs c h = Some (Inl e)) \<longleftrightarrow>
          (\<not> fst ?answer \<and> snd ?answer \<noteq> null)"
  proof
    assume "\<exists>e. Instanceof fl om loc i t inst targs c h = Some (Inl e)"
    then show "\<not> fst ?answer \<and> snd ?answer \<noteq> null"
      by (auto simp: Instanceof_def Let_def split: if_splits option.splits)
  next
    assume "\<not> fst ?answer \<and> snd ?answer \<noteq> null"
    then show "\<exists>e. Instanceof fl om loc i t inst targs c h = Some (Inl e)"
      by (simp add: Instanceof_def Let_def)
  qed
next
  let ?answer = "IsInstanceOf om (instance_at h i) t targs"
  assume "Instanceof fl om loc i t inst targs c h = Some (Inl e)"
  then show "e = TypeError loc [] [] [] (Some (ToErrorCString om (snd ?answer)))"
    by (auto simp: Instanceof_def Let_def split: if_splits option.splits)
next
  let ?answer = "IsInstanceOf om (instance_at h i) t targs"
  assume quiet: "fst ?answer \<or> snd ?answer = null"
    and key: "test_cache_key om i inst targs h = Some (k, hk)"
  from quiet have no_throw: "\<not> (\<not> fst ?answer \<and> snd ?answer \<noteq> null)"
    by auto
  show "Instanceof fl om loc i t inst targs c h =
        Some (Inr (fst ?answer,
          if c = null then h
          else if NumberOfChecks c h < FLAG_max_subtype_cache_entries fl
                  \<and> k \<notin> set (map check_key (cache_at h c))
                  \<and> \<not> IsInstantiatedTypeArguments om (snd (snd k))
          then AddCheck c (fst k) (fst (snd k)) (snd (snd k)) (fst ?answer) hk
          else hk))"
    unfolding Instanceof_def Let_def UpdateTypeTestCache_value [OF key]
    using no_throw by simp
qed

theorem C10_Instanceof_witness:
  "IsInstanceOf om0 (instance_at type_heap0 1) 72 0 = (False, 90)
   \<and> Instanceof flags0 om0 5 1 72 0 0 8 type_heap0
       = Some (Inl (TypeError 5 [] [] [] (Some ''type bound violated'')))
   \<and> IsInstanceOf om0 (instance_at type_heap0 1) 73 0 = (False, null)
   \<and> Instanceof flags0 om0 5 1 73 0 0 8 type_heap0
       = Some (Inr (False, AddCheck 8 30 60 0 False (SetTypeArguments 1 60 type_heap0)))
   \<and> IsInstanceOf om0 (instance_at type_heap0 1) 71 0 = (True, 90)
   \<and> test_cache_key om0 1 0 0 type_heap0 = Some ((30, 60, 0), SetTypeArguments 1 60 type_heap0)
   \<and> Instanceof flags0 om0 5 1 71 0 0 8 type_heap0
       = Some (Inr (True, AddCheck 8 30 60 0 True (SetTypeArguments 1 60 type_heap0)))"
proof -
  have a72: "IsInstanceOf om0 (instance_at type_heap0 1) 72 0 = (False, 90)"
    and a73: "IsInstanceOf om0 (instance_at type_heap0 1) 73 0 = (False, null)"
    and a71: "IsInstanceOf om0 (instance_at type_heap0 1) 71 0 = (True, 90)"
    by (simp_all add: om0_simps)
  have msg: "ToErrorCString om0 90 = ''type bound violated''"
    by (simp add: om0_simps)
  have key: "test_cache_key om0 1 0 0 type_heap0
               = Some ((30, 60, 0), SetTypeArguments 1 60 type_heap0)"
    by (rule test_cache_key_om0) (simp add: type_heap0_def)
  have room: "NumberOfChecks 8 type_heap0 < FLAG_max_subtype_cache_entries flags0"
    and fresh: "(30, 60, 0) \<notin> set (map check_key (cache_at type_heap0 8))"
    and flat: "\<not> IsInstantiatedTypeArguments om0 0"
    by (simp_all add: NumberOfChecks_def type_heap0_def flags0_def om0_simps)
  from C10_Instanceof [where fl = flags0 and om = om0 and loc = 5 and i = 1
         and t = 72 and inst = 0 and targs = 0 and c = 8 and h = type_heap0] a72 msg
  have thrown: "Instanceof flags0 om0 5 1 72 0 0 8 type_heap0
                  = Some (Inl (TypeError 5 [] [] [] (Some ''type bound violated'')))"
    by auto
  from C10_Instanceof [where fl = flags0 and om = om0 and loc = 5 and i = 1
         and t = 73 and inst = 0 and targs = 0 and c = 8 and h = type_heap0
         and k = "(30, 60, 0)" and hk = "SetTypeArguments 1 60 type_heap0"]
       a73 key room fresh flat
  have quiet: "Instanceof flags0 om0 5 1 73 0 0 8 type_heap0
       = Some (Inr (False, AddCheck 8 30 60 0 False (SetTypeArguments 1 60 type_heap0)))"
    by simp
  from C10_Instanceof [where fl = flags0 and om = om0 and loc = 5 and i = 1
         and t = 71 and inst = 0 and targs = 0 and c = 8 and h = type_heap0
         and k = "(30, 60, 0)" and hk = "SetTypeArguments 1 60 type_heap0"]
       a71 key room fresh flat
  have returned: "Instanceof flags0 om0 5 1 71 0 0 8 type_heap0
       = Some (Inr (True, AddCheck 8 30 60 0 True (SetTypeArguments 1 60 type_heap0)))"
    by simp
  from a72 a73 a71 key thrown quiet returned show ?thesis by simp
qed

subsection \<open>C9: the assignment check\<close>

text \<open>
  C9, as stated, does not hold: a successful check is not always inserted. With room for
  two checks and two checks in the cache, the test answers true, the entry returns the
  instance, and the cache holds the same two checks as before.
\<close>

theorem C9_no_insertion_counterexample:
  "fst (IsInstanceOf om0 (instance_at type_heap_full 1) 70 0)
   \<and> TypeCheck flags2 om0 5 1 70 0 0 ''x'' 8 type_heap_full
       = Some (Inr (1, SetTypeArguments 1 60 type_heap_full))
   \<and> cache_at (SetTypeArguments 1 60 type_heap_full) 8 = [(31, 0, 0, True), (32, 0, 0, False)]
   \<and> cache_at (SetTypeArguments 1 60 type_heap_full) 8 = cache_at type_heap_full 8
   \<and> (30, 60, 0, True) \<notin> set (cache_at (SetTypeArguments 1 60 type_heap_full) 8)"
  by (simp add: TypeCheck_def UpdateTypeTestCache_def OptimizeTypeArguments_def
        instantiate_loop_om0 Let_def NumberOfChecks_def SetTypeArguments_def flags2_def
        flags0_def om0_simps type_heap_full_def type_heap0_def)

text \<open>
  C9, amended: if the instance-of test answers false, \<^verbatim>\<open>TypeCheck\<close> throws a type
  error with the name of the source type, the name of the (instantiated) destination
  type, the destination name and the bound error message if there is one, and does not
  return. If the test answers true, the entry returns the instance it was given, and the
  check with result true is appended to the cache exactly when the cache is not null,
  holds fewer than \<^verbatim>\<open>FLAG_max_subtype_cache_entries\<close> checks and none with the same
  key, and the instantiator type arguments are not \<^verbatim>\<open>InstantiatedTypeArguments\<close>;
  otherwise the caches are left as they were.
\<close>

theorem C9_TypeCheck:
  "(\<not> fst (IsInstanceOf om (instance_at h src) dst_type targs) \<longrightarrow>
      TypeCheck fl om loc src dst_type dst_inst targs dst_name c h =
        Some (Inl (TypeError loc
                (GetTypeName om (instance_at h src))
                (if \<not> IsInstantiated om dst_type
                 then UserVisibleName om (InstantiateTypeFrom om dst_type targs)
                 else UserVisibleName om dst_type)
                dst_name
                (if snd (IsInstanceOf om (instance_at h src) dst_type targs) \<noteq> null
                 then Some (ToErrorCString om
                              (snd (IsInstanceOf om (instance_at h src) dst_type targs)))
                 else None))))
   \<and> (fst (IsInstanceOf om (instance_at h src) dst_type targs) \<longrightarrow>
      test_cache_key om src dst_inst targs h = Some (k, hk) \<longrightarrow>
      TypeCheck fl om loc src dst_type dst_inst targs dst_name c h =
        Some (Inr (src,
          if c = null then h
          else if NumberOfChecks c h < FLAG_max_subtype_cache_entries fl
                  \<and> k \<notin> set (map check_key (cache_at h c))
                  \<and> \<not> IsInstantiatedTypeArguments om (snd (snd k))
          then AddCheck c (fst k) (fst (snd k)) (snd (snd k)) True hk
          else hk)))"
proof (intro conjI impI)
  assume "\<not> fst (IsInstanceOf om (instance_at h src) dst_type targs)"
  then show "TypeCheck fl om loc src dst_type dst_inst targs dst_name c h =
        Some (Inl (TypeError loc
                (GetTypeName om (instance_at h src))
                (if \<not> IsInstantiated om dst_type
                 then UserVisibleName om (InstantiateTypeFrom om dst_type targs)
                 else UserVisibleName om dst_type)
                dst_name
                (if snd (IsInstanceOf om (instance_at h src) dst_type targs) \<noteq> null
                 then Some (ToErrorCString om
                              (snd (IsInstanceOf om (instance_at h src) dst_type targs)))
                 else None)))"
    by (simp add: TypeCheck_def Let_def)
next
  assume yes: "fst (IsInstanceOf om (instance_at h src) dst_type targs)"
    and key: "test_cache_key om src dst_inst targs h = Some (k, hk)"
  have same: "cache_at hk = cache_at h"
    using key by (rule cache_at_test_cache_key)
  have upd: "UpdateTypeTestCache fl om src dst_type dst_inst targs True c h =
          Some (if c = null then h
          else if NumberOfChecks c h < FLAG_max_subtype_cache_entries fl
                  \<and> k \<notin> set (map check_key (cache_at h c))
                  \<and> \<not> IsInstantiatedTypeArguments om (snd (snd k))
          then AddCheck c (fst k) (fst (snd k)) (snd (snd k)) True hk
          else hk)"
    using key same
    by (auto simp: UpdateTypeTestCache_by_key duplicate_check_iff NumberOfChecks_def)
  show "TypeCheck fl om loc src dst_type dst_inst targs dst_name c h =
        Some (Inr (src,
          if c = null then h
          else if NumberOfChecks c h < FLAG_max_subtype_cache_entries fl
                  \<and> k \<notin> set (map check_key (cache_at h c))
                  \<and> \<not> IsInstantiatedTypeArguments om (snd (snd k))
          then AddCheck c (fst k) (fst (snd k)) (snd (snd k)) True hk
          else hk))"
    using yes unfolding TypeCheck_def Let_def upd by simp
qed


theorem C9_TypeCheck_witness:
  "\<not> fst (IsInstanceOf om0 (instance_at type_heap0 1) 73 0)
   \<and> TypeCheck flags0 om0 5 1 73 0 0 ''x'' 8 type_heap0
       = Some (Inl (TypeError 5 ''List<int>'' ''Iterable<num>'' ''x'' None))
   \<and> fst (IsInstanceOf om0 (instance_at type_heap0 1) 70 0)
   \<and> test_cache_key om0 1 0 0 type_heap0 = Some ((30, 60, 0), SetTypeArguments 1 60 type_heap0)
   \<and> TypeCheck flags0 om0 5 1 70 0 0 ''x'' 8 type_heap0
       = Some (Inr (1, AddCheck 8 30 60 0 True (SetTypeArguments 1 60 type_heap0)))"
proof -
  have no: "\<not> fst (IsInstanceOf om0 (instance_at type_heap0 1) 73 0)"
    and yes: "fst (IsInstanceOf om0 (instance_at type_heap0 1) 70 0)"
    by (simp_all add: om0_simps)
  have key: "test_cache_key om0 1 0 0 type_heap0
               = Some ((30, 60, 0), SetTypeArguments 1 60 type_heap0)"
    by (rule test_cache_key_om0) (simp add: type_heap0_def)
  from C9_TypeCheck [where fl = flags0 and om = om0 and loc = 5 and src = 1 and dst_type = 73
         and dst_inst = 0 and targs = 0 and dst_name = "''x''" and c = 8 and h = type_heap0] no
  have thrown: "TypeCheck flags0 om0 5 1 73 0 0 ''x'' 8 type_heap0
       = Some (Inl (TypeError 5 ''List<int>'' ''Iterable<num>'' ''x'' None))"
    by (simp add: om0_simps)
  from C9_TypeCheck [where fl = flags0 and om = om0 and loc = 5 and src = 1 and dst_type = 70
         and dst_inst = 0 and targs = 0 and dst_name = "''x''" and c = 8 and h = type_heap0
         and k = "(30, 60, 0)" and hk = "SetTypeArguments 1 60 type_heap0"] yes key
  have returned: "TypeCheck flags0 om0 5 1 70 0 0 ''x'' 8 type_heap0
       = Some (Inr (1, AddCheck 8 30 60 0 True (SetTypeArguments 1 60 type_heap0)))"
    by (simp add: NumberOfChecks_def type_heap0_def flags0_def om0_simps)
  from no yes key thrown returned show ?thesis by simp
qed

subsection \<open>C8: the window in which the isolate has a deoptimization context\<close>

lemma run_deopt_append:
  "run_deopt co (es @ [e]) s =
     (case run_deopt co es s of Inl err \<Rightarrow> Inl err | Inr s1 \<Rightarrow> deopt_step co e s1)"
  by (induction es arbitrary: s) (auto split: sum.splits)

lemma DeoptimizeCopyFrame_installs:
  assumes "DeoptimizeCopyFrame co a s = Inr (n, t)"
  shows "deopt_context t \<noteq> null \<and> context_at s (deopt_context t) = None
         \<and> context_at t (deopt_context t) \<noteq> None"
  using assms
  by (auto simp: DeoptimizeCopyFrame_def context_at_def Let_def nth_append split: option.splits)

lemma DeoptimizeFillFrame_keeps:
  assumes "DeoptimizeFillFrame co a s = Inr t"
  shows "deopt_context t = deopt_context s"
  using assms
  by (auto simp: DeoptimizeFillFrame_def Let_def split: option.splits)

lemma DeoptimizeMaterialize_clears:
  assumes "DeoptimizeMaterialize co s = Inr (m, u)"
  shows "deopt_context u = null \<and> context_at u (deopt_context s) = None
         \<and> context_at s (deopt_context s) \<noteq> None"
  using assms
  by (auto simp: DeoptimizeMaterialize_def context_at_def Let_def split: option.splits if_splits)

lemma run_deopt_window:
  assumes "run_deopt co entries s = Inr s'" and "deopt_context s = null"
  shows "(deopt_context s' \<noteq> null) = in_deopt_window entries"
  using assms(1)
proof (induction entries arbitrary: s' rule: rev_induct)
  case Nil
  then show ?case using assms(2) by (simp add: in_deopt_window_def)
next
  case (snoc e es)
  from snoc.prems obtain s1 where run: "run_deopt co es s = Inr s1"
    and step: "deopt_step co e s1 = Inr s'"
    by (auto simp: run_deopt_append split: sum.splits)
  from snoc.IH [OF run] have IH: "(deopt_context s1 \<noteq> null) = latest_is_copy (rev es)"
    by (simp add: in_deopt_window_def)
  show ?case
  proof (cases e)
    case (CopyFrame a)
    with step show ?thesis
      by (auto simp: in_deopt_window_def split: sum.splits dest: DeoptimizeCopyFrame_installs)
  next
    case (FillFrame a)
    with step IH show ?thesis
      by (auto simp: in_deopt_window_def dest: DeoptimizeFillFrame_keeps)
  next
    case Materialize
    with step show ?thesis
      by (auto simp: in_deopt_window_def split: sum.splits dest: DeoptimizeMaterialize_clears)
  qed
qed

text \<open>
  C8: starting with no context on the isolate, after any sequence of calls of
  \<^verbatim>\<open>DeoptimizeCopyFrame\<close>, \<^verbatim>\<open>DeoptimizeFillFrame\<close> and \<^verbatim>\<open>DeoptimizeMaterialize\<close> the
  isolate has a context exactly when the latest copy or materialize call is a copy. A
  copy installs a context that did not exist before and exists after it; a materialize
  resets the pointer of the isolate to null, and the context it was given exists no
  more.
\<close>

theorem C8_deopt_context_window:
  "(deopt_context s = null \<longrightarrow> run_deopt co entries s = Inr s' \<longrightarrow>
      (deopt_context s' \<noteq> null) = in_deopt_window entries)
   \<and> (DeoptimizeCopyFrame co a t = Inr (n, t') \<longrightarrow>
      deopt_context t' \<noteq> null \<and> context_at t (deopt_context t') = None
      \<and> context_at t' (deopt_context t') \<noteq> None)
   \<and> (DeoptimizeMaterialize co u = Inr (m, u') \<longrightarrow>
      deopt_context u' = null \<and> context_at u (deopt_context u) \<noteq> None
      \<and> context_at u' (deopt_context u) = None)"
  using run_deopt_window [of co entries s s'] DeoptimizeCopyFrame_installs [of co a t n t']
    DeoptimizeMaterialize_clears [of co u m u']
  by blast


lemma DeoptimizeCopyFrame_co0:
  "DeoptimizeCopyFrame deopt_co0 1000 s
     = Inr (24, s\<lparr>deopt_context := length (contexts s) + 1, contexts := contexts s @ [Some ctx0]\<rparr>)"
  by (simp add: DeoptimizeCopyFrame_def deopt_co0_def NextFrame_def CopySavedRegisters_def
        ctx0_def frame_opt_def Let_def upt_rec)

lemma run_copy_fill:
  "run_deopt deopt_co0 [CopyFrame 1000, FillFrame 2000] deopt_state0
     = Inr \<lparr>deopt_context = 1, contexts = [Some (ctx0\<lparr>ctx_dest_frame := Some 63984\<rparr>)]\<rparr>"
  by (simp add: DeoptimizeCopyFrame_co0) (simp add: DeoptimizeFillFrame_def deopt_co0_def NextFrame_def
        context_at_def deopt_state0_def frame_opt_def)

lemma run_copy_fill_materialize:
  "run_deopt deopt_co0 [CopyFrame 1000, FillFrame 2000, Materialize] deopt_state0
     = Inr \<lparr>deopt_context = null, contexts = [None]\<rparr>"
  by (simp add: DeoptimizeCopyFrame_co0) (simp add: DeoptimizeFillFrame_def DeoptimizeMaterialize_def deopt_co0_def NextFrame_def
        context_at_def deopt_state0_def frame_opt_def)


theorem C8_deopt_context_window_witness:
  "deopt_context deopt_state0 = null
   \<and> run_deopt deopt_co0 [CopyFrame 1000, FillFrame 2000] deopt_state0
       = Inr \<lparr>deopt_context = 1, contexts = [Some (ctx0\<lparr>ctx_dest_frame := Some 63984\<rparr>)]\<rparr>
   \<and> in_deopt_window [CopyFrame 1000, FillFrame 2000]
   \<and> run_deopt deopt_co0 [CopyFrame 1000, FillFrame 2000, Materialize] deopt_state0
       = Inr \<lparr>deopt_context = null, contexts = [None]\<rparr>
   \<and> \<not> in_deopt_window [CopyFrame 1000, FillFrame 2000, Materialize]
   \<and> DeoptimizeCopyFrame deopt_co0 1000 deopt_state0
       = Inr (24, \<lparr>deopt_context = 1, contexts = [Some ctx0]\<rparr>)
   \<and> context_at deopt_state0 1 = None
   \<and> context_at \<lparr>deopt_context = 1, contexts = [Some ctx0]\<rparr> 1 \<noteq> None
   \<and> DeoptimizeMaterialize deopt_co0 \<lparr>deopt_context = 1, contexts = [Some ctx0]\<rparr>
       = Inr (8, \<lparr>deopt_context = null, contexts = [None]\<rparr>)
   \<and> context_at \<lparr>deopt_context = null, contexts = [None]\<rparr> 1 = None"
proof -
  have start: "deopt_context deopt_state0 = null"
    by (simp add: deopt_state0_def)
  have copy: "DeoptimizeCopyFrame deopt_co0 1000 deopt_state0
                = Inr (24, \<lparr>deopt_context = 1, contexts = [Some ctx0]\<rparr>)"
    by (simp add: DeoptimizeCopyFrame_co0) (simp add: deopt_state0_def)
  have mat: "DeoptimizeMaterialize deopt_co0 \<lparr>deopt_context = 1, contexts = [Some ctx0]\<rparr>
               = Inr (8, \<lparr>deopt_context = null, contexts = [None]\<rparr>)"
    by (simp add: DeoptimizeMaterialize_def context_at_def deopt_co0_def)
  from C8_deopt_context_window
         [where s = deopt_state0 and co = deopt_co0 and entries = "[CopyFrame 1000, FillFrame 2000]"
            and s' = "\<lparr>deopt_context = 1, contexts = [Some (ctx0\<lparr>ctx_dest_frame := Some 63984\<rparr>)]\<rparr>"
            and a = 1000 and t = deopt_state0 and n = 24
            and t' = "\<lparr>deopt_context = 1, contexts = [Some ctx0]\<rparr>"
            and u = "\<lparr>deopt_context = 1, contexts = [Some ctx0]\<rparr>" and m = 8
            and u' = "\<lparr>deopt_context = null, contexts = [None]\<rparr>"]
       start run_copy_fill copy mat
  have inside: "in_deopt_window [CopyFrame 1000, FillFrame 2000]"
    and fresh: "context_at deopt_state0 1 = None"
    and live: "context_at \<lparr>deopt_context = 1, contexts = [Some ctx0]\<rparr> 1 \<noteq> None"
    and gone: "context_at \<lparr>deopt_context = null, contexts = [None]\<rparr> 1 = None"
    by simp_all
  from C8_deopt_context_window
         [where s = deopt_state0 and co = deopt_co0
            and entries = "[CopyFrame 1000, FillFrame 2000, Materialize]"
            and s' = "\<lparr>deopt_context = null, contexts = [None]\<rparr>"]
       start run_copy_fill_materialize
  have outside: "\<not> in_deopt_window [CopyFrame 1000, FillFrame 2000, Materialize]"
    by simp
  from start run_copy_fill run_copy_fill_materialize copy mat inside fresh live gone outside show ?thesis by simp
qed

subsection \<open>C6: recording the \<^verbatim>\<open>noSuchMethod\<close> dispatcher in the IC data\<close>

lemma no_target_no_receiver_check:
  assumes "target_for_receiver checks cid = null" and "\<forall>chk \<in> set checks. snd chk \<noteq> null"
  shows "filter (receiver_cid_is cid) checks = []"
  using assms by (induction checks) (auto split: if_splits)

text \<open>
  C6, as stated, does not hold for every value of \<^verbatim>\<open>num_args_tested\<close>: with two
  arguments tested the check is appended without a look at the checks that are there.
  Here the operator has missed before for the classes \<open>(30, 32)\<close> and the IC data holds
  the dispatcher for them; the call misses again for the classes \<open>(30, 31)\<close>, and after
  the entry the IC data has two checks whose receiver class id is \<open>30\<close>.
\<close>

theorem C6_two_args_second_check_counterexample:
  "ResolveDynamicForReceiverClass ic_co0 (GetClassId ic_co0 1)
       (GetterName ic_co0 (target_name ic_two_args)) = null
   \<and> InstanceFunctionLookup ic_co0 1 ic_two_args 0 [1, 2]
       = Inr (99, ic_two_args\<lparr>ic_checks := [([30, 32], 88), ([30, 31], 88)]\<rparr>)
   \<and> receiver_checks 30 (ic_two_args\<lparr>ic_checks := [([30, 32], 88), ([30, 31], 88)]\<rparr>)
       = [([30, 32], 88), ([30, 31], 88)]
   \<and> \<not> length (receiver_checks 30
              (ic_two_args\<lparr>ic_checks := [([30, 32], 88), ([30, 31], 88)]\<rparr>)) \<le> 1"
  by (simp add: InstanceFunctionLookup_def ResolveCallThroughGetter_def ic_co0_def
        ic_two_args_def Let_def class_ids_loop.simps ICData_AddCheck_def CheckResultError_def
        receiver_checks_def)

text \<open>
  C6, amended: when no getter resolves and the entry returns, then with
  \<^verbatim>\<open>num_args_tested == 1\<close>, on IC data whose checks all have a target, the IC data
  has at most one check for the class id of the receiver if it had at most one before;
  with any other \<^verbatim>\<open>num_args_tested\<close> the check for the class ids of the receiver and
  the arguments is appended to the checks that were there, so that several checks may
  have the class id of the receiver.
\<close>

theorem C6_noSuchMethod_check:
  assumes fall: "ResolveDynamicForReceiverClass co (GetClassId co receiver)
                   (GetterName co (target_name ic)) = null
                 \<or> IsMethodExtractor co (ResolveDynamicForReceiverClass co (GetClassId co receiver)
                      (GetterName co (target_name ic)))"
    and returns: "InstanceFunctionLookup co receiver ic desc args = Inr (result, ic')"
  shows "(num_args_tested ic = 1 \<longrightarrow> (\<forall>chk \<in> set (ic_checks ic). snd chk \<noteq> null) \<longrightarrow>
            length (receiver_checks (GetClassId co receiver) ic) \<le> 1 \<longrightarrow>
            length (receiver_checks (GetClassId co receiver) ic') \<le> 1)
         \<and> (num_args_tested ic \<noteq> 1 \<longrightarrow>
            (\<exists>class_ids.
               class_ids_loop co args (num_args_tested ic) 1 [GetClassId co receiver]
                 = Inr class_ids
               \<and> ic_checks ic' = ic_checks ic @
                   [(class_ids, GetInvocationDispatcher co (GetClassId co receiver)
                                  (target_name ic) desc kNoSuchMethodDispatcher)]))"
proof -
  have getter: "ResolveCallThroughGetter co receiver (GetClassId co receiver) (target_name ic)
                  desc args ic null = Inr (False, null, ic)"
    using fall by (auto simp: ResolveCallThroughGetter_def Let_def)
  show ?thesis
  proof (intro conjI impI)
    assume one: "num_args_tested ic = 1"
      and targets: "\<forall>chk \<in> set (ic_checks ic). snd chk \<noteq> null"
      and before: "length (receiver_checks (GetClassId co receiver) ic) \<le> 1"
    show "length (receiver_checks (GetClassId co receiver) ic') \<le> 1"
    proof (cases "GetTargetForReceiverClassId (GetClassId co receiver) ic = null")
      case True
      then have none: "filter (receiver_cid_is (GetClassId co receiver)) (ic_checks ic) = []"
        using targets
        by (simp add: GetTargetForReceiverClassId_def no_target_no_receiver_check)
      from returns getter one True
      have "ic' = AddReceiverCheck (GetClassId co receiver)
                    (GetInvocationDispatcher co (GetClassId co receiver) (target_name ic) desc
                       kNoSuchMethodDispatcher) ic"
        by (auto simp: InstanceFunctionLookup_def Let_def split: sum.splits)
      then show ?thesis
        using none by (simp add: receiver_checks_def AddReceiverCheck_def)
    next
      case False
      with returns getter one have "ic' = ic"
        by (auto simp: InstanceFunctionLookup_def Let_def split: sum.splits)
      with before show ?thesis by simp
    qed
  next
    assume more: "num_args_tested ic \<noteq> 1"
    with returns getter
    show "\<exists>class_ids.
               class_ids_loop co args (num_args_tested ic) 1 [GetClassId co receiver]
                 = Inr class_ids
               \<and> ic_checks ic' = ic_checks ic @
                   [(class_ids, GetInvocationDispatcher co (GetClassId co receiver)
                                  (target_name ic) desc kNoSuchMethodDispatcher)]"
      by (auto simp: InstanceFunctionLookup_def Let_def ICData_AddCheck_def split: sum.splits)
  qed
qed


theorem C6_noSuchMethod_check_witness:
  "ResolveDynamicForReceiverClass ic_co0 (GetClassId ic_co0 1)
       (GetterName ic_co0 (target_name ic_one_arg)) = null
   \<and> num_args_tested ic_one_arg = 1
   \<and> map snd (ic_checks ic_one_arg) = [88]
   \<and> length (receiver_checks (GetClassId ic_co0 1) ic_one_arg) \<le> 1
   \<and> InstanceFunctionLookup ic_co0 1 ic_one_arg 0 [1] = Inr (99, ic_one_arg)
   \<and> InstanceFunctionLookup ic_co0 1 (ic_one_arg\<lparr>ic_checks := []\<rparr>) 0 [1] = Inr (99, ic_one_arg)
   \<and> length (receiver_checks (GetClassId ic_co0 1) ic_one_arg) \<le> 1
   \<and> num_args_tested ic_two_args \<noteq> 1
   \<and> InstanceFunctionLookup ic_co0 1 ic_two_args 0 [1, 2]
       = Inr (99, ic_two_args\<lparr>ic_checks := [([30, 32], 88), ([30, 31], 88)]\<rparr>)
   \<and> (\<exists>class_ids. class_ids_loop ic_co0 [1, 2] (num_args_tested ic_two_args) 1 [GetClassId ic_co0 1]
          = Inr class_ids
        \<and> [([30, 32], 88), ([30, 31], 88)] = ic_checks ic_two_args @ [(class_ids, 88)])"
proof -
  have fall1: "ResolveDynamicForReceiverClass ic_co0 (GetClassId ic_co0 1)
                 (GetterName ic_co0 (target_name ic_one_arg)) = null"
    and fall2: "ResolveDynamicForReceiverClass ic_co0 (GetClassId ic_co0 1)
                 (GetterName ic_co0 (target_name ic_two_args)) = null"
    and fall3: "ResolveDynamicForReceiverClass ic_co0 (GetClassId ic_co0 1)
                 (GetterName ic_co0 (target_name (ic_one_arg\<lparr>ic_checks := []\<rparr>))) = null"
    by (simp_all add: ic_co0_def)
  have one: "num_args_tested ic_one_arg = 1" and two: "num_args_tested ic_two_args \<noteq> 1"
    by (simp_all add: ic_one_arg_def ic_two_args_def)
  have targets: "\<forall>chk \<in> set (ic_checks ic_one_arg). snd chk \<noteq> null"
    by (simp add: ic_one_arg_def)
  have before: "length (receiver_checks (GetClassId ic_co0 1) ic_one_arg) \<le> 1"
    by (simp add: receiver_checks_def ic_one_arg_def ic_co0_def)
  have hit: "InstanceFunctionLookup ic_co0 1 ic_one_arg 0 [1] = Inr (99, ic_one_arg)"
    by (simp add: InstanceFunctionLookup_def ResolveCallThroughGetter_def ic_co0_def
          ic_one_arg_def Let_def GetTargetForReceiverClassId_def CheckResultError_def)
  have miss: "InstanceFunctionLookup ic_co0 1 (ic_one_arg\<lparr>ic_checks := []\<rparr>) 0 [1]
                = Inr (99, ic_one_arg)"
    by (simp add: InstanceFunctionLookup_def ResolveCallThroughGetter_def ic_co0_def
          ic_one_arg_def Let_def GetTargetForReceiverClassId_def CheckResultError_def
          AddReceiverCheck_def)
  have operator: "InstanceFunctionLookup ic_co0 1 ic_two_args 0 [1, 2]
       = Inr (99, ic_two_args\<lparr>ic_checks := [([30, 32], 88), ([30, 31], 88)]\<rparr>)"
    by (simp add: InstanceFunctionLookup_def ResolveCallThroughGetter_def ic_co0_def
          ic_two_args_def Let_def class_ids_loop.simps ICData_AddCheck_def CheckResultError_def)
  have dispatcher: "GetInvocationDispatcher ic_co0 (GetClassId ic_co0 1) (target_name ic_two_args)
                      0 kNoSuchMethodDispatcher = 88"
    by (simp add: ic_co0_def)
  from C6_noSuchMethod_check [OF fall1 [THEN disjI1] hit] one targets before
  have kept: "length (receiver_checks (GetClassId ic_co0 1) ic_one_arg) \<le> 1"
    by simp
  from C6_noSuchMethod_check [OF fall3 [THEN disjI1] miss] one
  have added: "length (receiver_checks (GetClassId ic_co0 1) ic_one_arg) \<le> 1"
    by (simp add: receiver_checks_def)
  from C6_noSuchMethod_check [OF fall2 [THEN disjI1] operator] two dispatcher
  have appended: "\<exists>class_ids.
          class_ids_loop ic_co0 [1, 2] (num_args_tested ic_two_args) 1 [GetClassId ic_co0 1]
            = Inr class_ids
          \<and> [([30, 32], 88), ([30, 31], 88)] = ic_checks ic_two_args @ [(class_ids, 88)]"
    by simp
  have targets_are: "map snd (ic_checks ic_one_arg) = [88]"
    by (simp add: ic_one_arg_def)
  from fall1 one targets_are before hit miss kept two operator appended show ?thesis by blast
qed

end
